theory Spec2Isabelle
  imports Main "HOL-Library.AList"
begin

section \<open>JavaScript values\<close>

text \<open>
  The workspace utilities of \<^verbatim>\<open>vs/platform/workspaces/common/workspaces.ts\<close> inspect
  data that comes out of a JSON parser or out of persisted storage, so every runtime
  check of the source (\<^verbatim>\<open>typeof\<close>, \<^verbatim>\<open>Array.isArray\<close>, truthiness, property access)
  is modelled on a datatype of JavaScript values. Objects are association lists
  (the first binding of a key is the property's value). Numbers only matter through
  \<^verbatim>\<open>typeof\<close> and truthiness, so integers stand for them.
\<close>

datatype jsval =
    JUndefined
  | JNull
  | JBool bool
  | JNum int
  | JStr string
  | JArr "jsval list"
  | JObj "(string \<times> jsval) list"

datatype jstype = TUndefined | TObject | TBoolean | TNumber | TString

fun typeof :: "jsval \<Rightarrow> jstype" where
  "typeof JUndefined = TUndefined"
| "typeof JNull = TObject"
| "typeof (JBool b) = TBoolean"
| "typeof (JNum n) = TNumber"
| "typeof (JStr s) = TString"
| "typeof (JArr xs) = TObject"
| "typeof (JObj kvs) = TObject"

fun truthy :: "jsval \<Rightarrow> bool" where
  "truthy JUndefined = False"
| "truthy JNull = False"
| "truthy (JBool b) = b"
| "truthy (JNum n) = (n \<noteq> 0)"
| "truthy (JStr s) = (s \<noteq> [])"
| "truthy (JArr xs) = True"
| "truthy (JObj kvs) = True"

fun isArray :: "jsval \<Rightarrow> bool" where
  "isArray (JArr xs) = True"
| "isArray v = False"

text \<open>
  \<open>jsprop v k\<close> is the optional-chaining read \<^verbatim>\<open>v?.k\<close>, which is also what \<^verbatim>\<open>v.k\<close>
  yields for every value other than \<^verbatim>\<open>null\<close> and \<^verbatim>\<open>undefined\<close> (none of the keys the
  source reads is a built-in property of strings, numbers or arrays).
  \<open>member v k\<close> is the plain read \<^verbatim>\<open>v.k\<close>, which throws a TypeError on \<^verbatim>\<open>null\<close>
  and \<^verbatim>\<open>undefined\<close>.
\<close>

fun jsprop :: "jsval \<Rightarrow> string \<Rightarrow> jsval" where
  "jsprop (JObj kvs) k = (case map_of kvs k of Some v \<Rightarrow> v | None \<Rightarrow> JUndefined)"
| "jsprop v k = JUndefined"

section \<open>Locations and the collaborators the module imports\<close>

record URI =
  scheme :: string
  authority :: string
  path :: string
  query :: string
  fragment :: string

datatype error =
    TypeError
  | UriError string
  | InvalidWorkspaceFile URI

fun member :: "jsval \<Rightarrow> string \<Rightarrow> error + jsval" where
  "member JUndefined k = Inl TypeError"
| "member JNull k = Inl TypeError"
| "member v k = Inr (jsprop v k)"

fun elems :: "jsval \<Rightarrow> jsval list" where
  "elems (JArr xs) = xs"
| "elems v = []"

fun asString :: "jsval \<Rightarrow> string" where
  "asString (JStr s) = s"
| "asString v = []"

text \<open>\<^verbatim>\<open>arr[i]\<close>: \<^verbatim>\<open>undefined\<close> past the end of the array.\<close>

definition at_index :: "jsval \<Rightarrow> nat \<Rightarrow> jsval" where
  "at_index v i = (if i < length (elems v) then elems v ! i else JUndefined)"

text \<open>The platform flags of \<^verbatim>\<open>vs/base/common/platform\<close>.\<close>

record platform =
  isWindows :: bool
  isLinux :: bool
  isMacintosh :: bool

text \<open>
  The interface \<^verbatim>\<open>IExtUri\<close> of \<^verbatim>\<open>vs/base/common/resources\<close>, passed to the functions
  of the module as their \<^verbatim>\<open>extUri\<close> argument. \<open>relativePath\<close> is \<open>None\<close> where the
  source returns \<^verbatim>\<open>undefined\<close>.
\<close>

record IExtUri =
  relativePath :: "URI \<Rightarrow> URI \<Rightarrow> string option"
  resolvePath :: "URI \<Rightarrow> string \<Rightarrow> URI"
  dirname :: "URI \<Rightarrow> URI"
  basenameOrAuthority :: "URI \<Rightarrow> string"
  getComparisonKey :: "URI \<Rightarrow> string"
  isEqualAuthority :: "string \<Rightarrow> string \<Rightarrow> bool"

text \<open>
  The functions the module imports from other files of the repository
  (\<^verbatim>\<open>URI.parse\<close>, \<^verbatim>\<open>uri.toString(skipEncoding)\<close>, \<^verbatim>\<open>uri.fsPath\<close>, \<^verbatim>\<open>normalizeDriveLetter\<close>,
  \<^verbatim>\<open>toSlashes\<close>, \<^verbatim>\<open>isAbsolute\<close>, \<^verbatim>\<open>getRemoteAuthority\<close> and the \<^verbatim>\<open>isEqualAuthority\<close> of
  \<^verbatim>\<open>resources\<close>). They are parameters of the model. \<open>URI_parse\<close> is \<open>None\<close> where
  \<^verbatim>\<open>URI.parse\<close> throws.
\<close>

record Deps =
  URI_parse :: "string \<Rightarrow> URI option"
  URI_toString :: "URI \<Rightarrow> bool \<Rightarrow> string"
  URI_fsPath :: "URI \<Rightarrow> string"
  normalizeDriveLetter :: "string \<Rightarrow> string"
  toSlashes :: "string \<Rightarrow> string"
  isAbsolute :: "string \<Rightarrow> bool"
  getRemoteAuthority :: "URI \<Rightarrow> jsval"
  resources_isEqualAuthority :: "jsval \<Rightarrow> jsval \<Rightarrow> bool"

definition Schemas_file :: string where
  "Schemas_file = ''file''"

section \<open>Workspace file utilities\<close>

definition isRawFileWorkspaceFolder :: "jsval \<Rightarrow> bool" where
  "isRawFileWorkspaceFolder obj =
     (typeof (jsprop obj ''path'') = TString \<and>
      (\<not> truthy (jsprop obj ''name'') \<or> typeof (jsprop obj ''name'') = TString))"

definition isRawUriWorkspaceFolder :: "jsval \<Rightarrow> bool" where
  "isRawUriWorkspaceFolder obj =
     (typeof (jsprop obj ''uri'') = TString \<and>
      (\<not> truthy (jsprop obj ''name'') \<or> typeof (jsprop obj ''name'') = TString))"

definition isStoredWorkspaceFolder :: "jsval \<Rightarrow> bool" where
  "isStoredWorkspaceFolder obj = (isRawFileWorkspaceFolder obj \<or> isRawUriWorkspaceFolder obj)"

text \<open>\<^verbatim>\<open>folderPath.replace(/\//g, '\\')\<close>: every slash becomes a backslash.\<close>

definition backslash :: char where
  "backslash = CHR 0x5C"

definition replaceSlashes :: "string \<Rightarrow> string" where
  "replaceSlashes s = map (\<lambda>c. if c = CHR ''/'' then backslash else c) s"

text \<open>
  \<^verbatim>\<open>getStoredWorkspaceFolder\<close>. The parameter \<^verbatim>\<open>useSlashForPath\<close> has the default
  \<^verbatim>\<open>!isWindows\<close>, taken when the caller leaves it out (\<open>None\<close>). The result is the
  object literal the source returns.
\<close>

definition getStoredWorkspaceFolder ::
  "platform \<Rightarrow> Deps \<Rightarrow> URI \<Rightarrow> bool \<Rightarrow> jsval \<Rightarrow> URI \<Rightarrow> bool option \<Rightarrow> IExtUri \<Rightarrow> jsval" where
  "getStoredWorkspaceFolder pf d folderURI forceAbsolute folderName targetConfigFolderURI
       useSlashForPath_arg extUri =
     (let useSlashForPath =
            (case useSlashForPath_arg of None \<Rightarrow> \<not> isWindows pf | Some b \<Rightarrow> b)
      in
      if scheme folderURI \<noteq> scheme targetConfigFolderURI then
        JObj [(''name'', folderName), (''uri'', JStr (URI_toString d folderURI True))]
      else
        (case (if \<not> forceAbsolute then relativePath extUri targetConfigFolderURI folderURI
               else None) of
           Some folderPath \<Rightarrow>
             JObj [(''name'', folderName),
                   (''path'', JStr
                      (if length folderPath = 0 then ''.''
                       else if isWindows pf \<and> scheme folderURI = Schemas_file \<and> \<not> useSlashForPath
                       then replaceSlashes folderPath
                       else folderPath))]
         | None \<Rightarrow>
             if scheme folderURI = Schemas_file then
               JObj [(''name'', folderName),
                     (''path'', JStr
                        (if isWindows pf then
                           (if useSlashForPath
                            then toSlashes d (normalizeDriveLetter d (URI_fsPath d folderURI))
                            else normalizeDriveLetter d (URI_fsPath d folderURI))
                         else URI_fsPath d folderURI))]
             else if \<not> isEqualAuthority extUri (authority folderURI)
                         (authority targetConfigFolderURI) then
               JObj [(''name'', folderName), (''uri'', JStr (URI_toString d folderURI True))]
             else
               JObj [(''name'', folderName), (''path'', JStr (path folderURI))]))"

text \<open>
  The class \<^verbatim>\<open>WorkspaceFolder\<close> of \<^verbatim>\<open>vs/platform/workspace/common/workspace.ts\<close>:
  the constructor copies \<^verbatim>\<open>uri\<close>, \<^verbatim>\<open>index\<close> and \<^verbatim>\<open>name\<close> from its data argument and
  keeps the stored entry as \<^verbatim>\<open>raw\<close>.
\<close>

record WorkspaceFolder =
  uri :: URI
  name :: jsval
  index :: nat
  raw :: jsval

text \<open>
  The body of the loop of \<^verbatim>\<open>toWorkspaceFolders\<close> up to \<^verbatim>\<open>if (uri)\<close>: the location a stored
  folder resolves to, \<open>None\<close> where \<^verbatim>\<open>uri\<close> stays \<^verbatim>\<open>undefined\<close>. A throwing \<^verbatim>\<open>URI.parse\<close>
  is caught there (the source prints the exception with \<^verbatim>\<open>console.warn\<close>, which the result
  does not show). \<^verbatim>\<open>uri.with({ path })\<close> replaces the path component; the path it is given
  here starts with exactly one slash, which the validation of the URI class accepts, so
  it is modelled as a plain update.
\<close>

definition resolveConfiguredFolder :: "Deps \<Rightarrow> IExtUri \<Rightarrow> URI \<Rightarrow> jsval \<Rightarrow> URI option" where
  "resolveConfiguredFolder d extUri relativeTo configuredFolder =
     (if isRawFileWorkspaceFolder configuredFolder then
        (if truthy (jsprop configuredFolder ''path'')
         then Some (resolvePath extUri relativeTo (asString (jsprop configuredFolder ''path'')))
         else None)
      else if isRawUriWorkspaceFolder configuredFolder then
        (case URI_parse d (asString (jsprop configuredFolder ''uri'')) of
           None \<Rightarrow> None
         | Some u \<Rightarrow>
             (if (case path u of [] \<Rightarrow> True | c # cs \<Rightarrow> c \<noteq> CHR ''/'')
              then Some (u\<lparr>path := CHR ''/'' # path u\<rparr>)
              else Some u))
      else None)"

fun toWorkspaceFolders_loop ::
  "Deps \<Rightarrow> IExtUri \<Rightarrow> URI \<Rightarrow> jsval list \<Rightarrow> WorkspaceFolder list \<times> string set
     \<Rightarrow> WorkspaceFolder list \<times> string set" where
  "toWorkspaceFolders_loop d extUri relativeTo [] (result, seen) = (result, seen)"
| "toWorkspaceFolders_loop d extUri relativeTo (configuredFolder # rest) (result, seen) =
     (case resolveConfiguredFolder d extUri relativeTo configuredFolder of
        None \<Rightarrow> toWorkspaceFolders_loop d extUri relativeTo rest (result, seen)
      | Some u \<Rightarrow>
          (let comparisonKey = getComparisonKey extUri u in
           if comparisonKey \<notin> seen then
             toWorkspaceFolders_loop d extUri relativeTo rest
               (result @
                  [\<lparr>uri = u,
                    name = (if truthy (jsprop configuredFolder ''name'')
                            then jsprop configuredFolder ''name''
                            else JStr (basenameOrAuthority extUri u)),
                    index = length result,
                    raw = configuredFolder\<rparr>],
                insert comparisonKey seen)
           else toWorkspaceFolders_loop d extUri relativeTo rest (result, seen)))"

definition toWorkspaceFolders :: "Deps \<Rightarrow> jsval list \<Rightarrow> URI \<Rightarrow> IExtUri \<Rightarrow> WorkspaceFolder list" where
  "toWorkspaceFolders d configuredFolders workspaceConfigFile extUri =
     fst (toWorkspaceFolders_loop d extUri (dirname extUri workspaceConfigFile)
            configuredFolders ([], {}))"

subsection \<open>Rewriting a workspace file for a new location\<close>

text \<open>
  \<^verbatim>\<open>FormattingOptions\<close> of \<^verbatim>\<open>vs/base/common/jsonFormatter\<close>, and the functions of
  \<^verbatim>\<open>vs/base/common/json\<close> and \<^verbatim>\<open>vs/base/common/jsonEdit\<close> the module calls, as parameters;
  \<open>'e\<close> is the type of an edit list.
\<close>

record FormattingOptions =
  insertSpaces :: bool
  tabSize :: nat
  eol :: string

record 'e JsonDeps =
  json_parse :: "string \<Rightarrow> jsval"
  setProperty :: "string \<Rightarrow> string list \<Rightarrow> jsval \<Rightarrow> FormattingOptions \<Rightarrow> 'e"
  removeProperty :: "string \<Rightarrow> string list \<Rightarrow> FormattingOptions \<Rightarrow> 'e"
  applyEdits :: "string \<Rightarrow> 'e \<Rightarrow> string"

text \<open>The assignment \<^verbatim>\<open>obj.k = v\<close> on an object.\<close>

fun assign :: "jsval \<Rightarrow> string \<Rightarrow> jsval \<Rightarrow> jsval" where
  "assign (JObj kvs) k v = JObj (AList.update k v kvs)"
| "assign w k v = w"

definition doParseStoredWorkspace :: "'e JsonDeps \<Rightarrow> URI \<Rightarrow> string \<Rightarrow> error + jsval" where
  "doParseStoredWorkspace jd p contents =
     (let storedWorkspace = json_parse jd contents in
      if truthy storedWorkspace \<and> isArray (jsprop storedWorkspace ''folders'') then
        Inr (assign storedWorkspace ''folders''
               (JArr (filter isStoredWorkspaceFolder (elems (jsprop storedWorkspace ''folders'')))))
      else Inl (InvalidWorkspaceFile p))"

definition useSlashForPath :: "platform \<Rightarrow> jsval list \<Rightarrow> bool" where
  "useSlashForPath pf storedFolders =
     (if isWindows pf then
        list_ex (\<lambda>folder. isRawFileWorkspaceFolder folder \<and>
                           CHR ''/'' \<in> set (asString (jsprop folder ''path''))) storedFolders
      else True)"

text \<open>
  The body of the loop of \<^verbatim>\<open>rewriteWorkspaceFileForNewLocation\<close>: the entry pushed for one
  stored folder, or the exception of \<^verbatim>\<open>URI.parse\<close>, which this function does not catch.
\<close>

definition rewriteFolder ::
  "platform \<Rightarrow> Deps \<Rightarrow> IExtUri \<Rightarrow> URI \<Rightarrow> URI \<Rightarrow> bool \<Rightarrow> bool \<Rightarrow> jsval \<Rightarrow> error + jsval" where
  "rewriteFolder pf d extUri sourceConfigFolder targetConfigFolder isFromUntitledWorkspace
       slashForPath folder =
     (case (if isRawFileWorkspaceFolder folder
            then Some (resolvePath extUri sourceConfigFolder (asString (jsprop folder ''path'')))
            else URI_parse d (asString (jsprop folder ''uri''))) of
        None \<Rightarrow> Inl (UriError (asString (jsprop folder ''uri'')))
      | Some folderURI \<Rightarrow>
          (let absolute =
                 (if isFromUntitledWorkspace then False
                  else \<not> isRawFileWorkspaceFolder folder \<or>
                       isAbsolute d (asString (jsprop folder ''path'')))
           in Inr (getStoredWorkspaceFolder pf d folderURI absolute (jsprop folder ''name'')
                     targetConfigFolder (Some slashForPath) extUri)))"

text \<open>A \<^verbatim>\<open>for ... of\<close> loop that pushes one value per element and stops at the first exception.\<close>

fun pushEach :: "('a \<Rightarrow> error + 'b) \<Rightarrow> 'a list \<Rightarrow> 'b list \<Rightarrow> error + 'b list" where
  "pushEach f [] acc = Inr acc"
| "pushEach f (x # xs) acc =
     (case f x of Inl e \<Rightarrow> Inl e | Inr y \<Rightarrow> pushEach f xs (acc @ [y]))"

definition formattingOptions :: "platform \<Rightarrow> FormattingOptions" where
  "formattingOptions pf =
     \<lparr>insertSpaces = False, tabSize = 4,
      eol = (if isLinux pf \<or> isMacintosh pf then [CHR 0x0A] else [CHR 0x0D, CHR 0x0A])\<rparr>"

definition rewriteWorkspaceFileForNewLocation ::
  "platform \<Rightarrow> Deps \<Rightarrow> 'e JsonDeps \<Rightarrow> string \<Rightarrow> URI \<Rightarrow> bool \<Rightarrow> URI \<Rightarrow> IExtUri \<Rightarrow> error + string" where
  "rewriteWorkspaceFileForNewLocation pf d jd rawWorkspaceContents configPathURI
       isFromUntitledWorkspace targetConfigPathURI extUri =
     (case doParseStoredWorkspace jd configPathURI rawWorkspaceContents of
        Inl e \<Rightarrow> Inl e
      | Inr storedWorkspace \<Rightarrow>
          (let sourceConfigFolder = dirname extUri configPathURI;
               targetConfigFolder = dirname extUri targetConfigPathURI;
               slashForPath = useSlashForPath pf (elems (jsprop storedWorkspace ''folders''))
           in
           case pushEach
                  (rewriteFolder pf d extUri sourceConfigFolder targetConfigFolder
                     isFromUntitledWorkspace slashForPath)
                  (elems (jsprop storedWorkspace ''folders'')) [] of
             Inl e \<Rightarrow> Inl e
           | Inr rewrittenFolders \<Rightarrow>
               (let edits = setProperty jd rawWorkspaceContents [''folders'']
                              (JArr rewrittenFolders) (formattingOptions pf);
                    newContent = applyEdits jd rawWorkspaceContents edits
                in
                if resources_isEqualAuthority d (jsprop storedWorkspace ''remoteAuthority'')
                     (getRemoteAuthority d targetConfigPathURI)
                then Inr (applyEdits jd newContent
                            (removeProperty jd newContent [''remoteAuthority'']
                               (formattingOptions pf)))
                else Inr newContent)))"

section \<open>Workspace storage: the recently opened list\<close>

text \<open>
  The in-memory entries. \<^verbatim>\<open>label\<close> and \<^verbatim>\<open>remoteAuthority\<close> are optional in the source and
  copied from persisted data unchecked, so they are JavaScript values here
  (\<open>JUndefined\<close> when absent).
\<close>

datatype IWorkspaceIdentifier = WorkspaceIdentifier (ident: string) (configPath: URI)

datatype IRecentWs =
    IRecentWorkspace (workspace: IWorkspaceIdentifier) (recentLabel: jsval)
      (recentRemoteAuthority: jsval)
  | IRecentFolder (folderUri: URI) (recentLabel: jsval) (recentRemoteAuthority: jsval)

datatype IRecentFile =
    IRecentFile (fileUri: URI) (fileLabel: jsval) (fileRemoteAuthority: jsval)

record IRecentlyOpened =
  workspaces :: "IRecentWs list"
  files :: "IRecentFile list"

definition isSerializedRecentWorkspace :: "jsval \<Rightarrow> bool" where
  "isSerializedRecentWorkspace data =
     (truthy (jsprop data ''workspace'') \<and>
      typeof (jsprop data ''workspace'') = TObject \<and>
      typeof (jsprop (jsprop data ''workspace'') ''id'') = TString \<and>
      typeof (jsprop (jsprop data ''workspace'') ''configPath'') = TString)"

definition isSerializedRecentFolder :: "jsval \<Rightarrow> bool" where
  "isSerializedRecentFolder data = (typeof (jsprop data ''folderUri'') = TString)"

definition isSerializedRecentFile :: "jsval \<Rightarrow> bool" where
  "isSerializedRecentFile data = (typeof (jsprop data ''fileUri'') = TString)"

text \<open>
  \<^verbatim>\<open>URI.parse(s)\<close> inside a callback: the exception becomes the callback's error.
\<close>

definition parseOrThrow :: "Deps \<Rightarrow> string \<Rightarrow> error + URI" where
  "parseOrThrow d s = (case URI_parse d s of None \<Rightarrow> Inl (UriError s) | Some u \<Rightarrow> Inr u)"

text \<open>
  \<^verbatim>\<open>restoreGracefully\<close>: the callback runs on every entry with its index; an exception
  is caught and a warning naming the entry and the exception is logged. The state is
  the result under construction and the log of warnings.
\<close>

type_synonym warning = "jsval \<times> error"

fun restoreGracefully ::
  "(jsval \<Rightarrow> nat \<Rightarrow> IRecentlyOpened \<Rightarrow> error + IRecentlyOpened) \<Rightarrow> jsval list \<Rightarrow> nat
     \<Rightarrow> IRecentlyOpened \<times> warning list \<Rightarrow> IRecentlyOpened \<times> warning list" where
  "restoreGracefully func [] i (result, warnings) = (result, warnings)"
| "restoreGracefully func (entry # entries) i (result, warnings) =
     (case func entry i result of
        Inr result' \<Rightarrow> restoreGracefully func entries (Suc i) (result', warnings)
      | Inl e \<Rightarrow> restoreGracefully func entries (Suc i) (result, warnings @ [(entry, e)]))"

text \<open>The callback for an entry of the current schema.\<close>

definition restoreEntry :: "Deps \<Rightarrow> jsval \<Rightarrow> nat \<Rightarrow> IRecentlyOpened \<Rightarrow> error + IRecentlyOpened" where
  "restoreEntry d entry i result =
     (case member entry ''label'' of
        Inl e \<Rightarrow> Inl e
      | Inr label \<Rightarrow>
     (case member entry ''remoteAuthority'' of
        Inl e \<Rightarrow> Inl e
      | Inr remoteAuthority \<Rightarrow>
          if isSerializedRecentWorkspace entry then
            (case parseOrThrow d (asString (jsprop (jsprop entry ''workspace'') ''configPath'')) of
               Inl e \<Rightarrow> Inl e
             | Inr u \<Rightarrow>
                 Inr (result\<lparr>workspaces := workspaces result @
                        [IRecentWorkspace
                           (WorkspaceIdentifier
                              (asString (jsprop (jsprop entry ''workspace'') ''id'')) u)
                           label remoteAuthority]\<rparr>))
          else if isSerializedRecentFolder entry then
            (case parseOrThrow d (asString (jsprop entry ''folderUri'')) of
               Inl e \<Rightarrow> Inl e
             | Inr u \<Rightarrow>
                 Inr (result\<lparr>workspaces := workspaces result @
                        [IRecentFolder u label remoteAuthority]\<rparr>))
          else if isSerializedRecentFile entry then
            (case parseOrThrow d (asString (jsprop entry ''fileUri'')) of
               Inl e \<Rightarrow> Inl e
             | Inr u \<Rightarrow>
                 Inr (result\<lparr>files := files result @ [IRecentFile u label remoteAuthority]\<rparr>))
          else Inr result))"

text \<open>
  The label of a legacy entry:
  \<^verbatim>\<open>(Array.isArray(labels) && labels[i]) || undefined\<close>.
\<close>

definition legacyLabel :: "jsval \<Rightarrow> nat \<Rightarrow> jsval" where
  "legacyLabel labels i =
     (if isArray labels \<and> truthy (at_index labels i) then at_index labels i else JUndefined)"

text \<open>The callbacks for \<^verbatim>\<open>workspaces3\<close> and \<^verbatim>\<open>files2\<close> of the legacy schema.\<close>

definition restoreLegacyWorkspace ::
  "Deps \<Rightarrow> jsval \<Rightarrow> jsval \<Rightarrow> nat \<Rightarrow> IRecentlyOpened \<Rightarrow> error + IRecentlyOpened" where
  "restoreLegacyWorkspace d workspaceLabels ws i result =
     (let label = legacyLabel workspaceLabels i in
      case (if typeof ws = TObject then
              (case member ws ''id'' of
                 Inl e \<Rightarrow> Inl e
               | Inr wid \<Rightarrow>
                   Inr (typeof wid = TString \<and> typeof (jsprop ws ''configURIPath'') = TString))
            else Inr False) of
        Inl e \<Rightarrow> Inl e
      | Inr True \<Rightarrow>
          (case parseOrThrow d (asString (jsprop ws ''configURIPath'')) of
             Inl e \<Rightarrow> Inl e
           | Inr u \<Rightarrow>
               Inr (result\<lparr>workspaces := workspaces result @
                      [IRecentWorkspace (WorkspaceIdentifier (asString (jsprop ws ''id'')) u)
                         label JUndefined]\<rparr>))
      | Inr False \<Rightarrow>
          if typeof ws = TString then
            (case parseOrThrow d (asString ws) of
               Inl e \<Rightarrow> Inl e
             | Inr u \<Rightarrow>
                 Inr (result\<lparr>workspaces := workspaces result @
                        [IRecentFolder u label JUndefined]\<rparr>))
          else Inr result)"

definition restoreLegacyFile ::
  "Deps \<Rightarrow> jsval \<Rightarrow> jsval \<Rightarrow> nat \<Rightarrow> IRecentlyOpened \<Rightarrow> error + IRecentlyOpened" where
  "restoreLegacyFile d fileLabels file i result =
     (let label = legacyLabel fileLabels i in
      if typeof file = TString then
        (case parseOrThrow d (asString file) of
           Inl e \<Rightarrow> Inl e
         | Inr u \<Rightarrow> Inr (result\<lparr>files := files result @ [IRecentFile u label JUndefined]\<rparr>))
      else Inr result)"

definition restoreRecentlyOpened :: "Deps \<Rightarrow> jsval \<Rightarrow> IRecentlyOpened \<times> warning list" where
  "restoreRecentlyOpened d data =
     (let result = \<lparr>workspaces = [], files = []\<rparr> in
      if truthy data then
        (if isArray (jsprop data ''entries'') then
           restoreGracefully (restoreEntry d) (elems (jsprop data ''entries'')) 0 (result, [])
         else
           (let st1 =
                  (if isArray (jsprop data ''workspaces3'') then
                     restoreGracefully
                       (restoreLegacyWorkspace d (jsprop data ''workspaceLabels''))
                       (elems (jsprop data ''workspaces3'')) 0 (result, [])
                   else (result, []))
            in
            if isArray (jsprop data ''files2'') then
              restoreGracefully (restoreLegacyFile d (jsprop data ''fileLabels''))
                (elems (jsprop data ''files2'')) 0 st1
            else st1))
      else (result, []))"





section \<open>Specification-level notions used in the statements\<close>

text \<open>
  Deduplication that keeps the first occurrence of every key: the head is kept and
  every later element with the same key is removed.
\<close>

fun keepFirstByKey :: "('a \<Rightarrow> 'k) \<Rightarrow> 'a list \<Rightarrow> 'a list" where
  "keepFirstByKey key [] = []"
| "keepFirstByKey key (x # xs) = x # keepFirstByKey key (filter (\<lambda>y. key y \<noteq> key x) xs)"

text \<open>
  The stored folders that resolve to a location, each with that location, in the order
  of the configuration.
\<close>

definition resolvedFolders :: "Deps \<Rightarrow> IExtUri \<Rightarrow> URI \<Rightarrow> jsval list \<Rightarrow> (URI \<times> jsval) list" where
  "resolvedFolders d extUri relativeTo configuredFolders =
     List.map_filter
       (\<lambda>cf. map_option (\<lambda>u. (u, cf)) (resolveConfiguredFolder d extUri relativeTo cf))
       configuredFolders"

text \<open>What restoring one entry on its own contributes, and the warning it causes.\<close>

definition emptyRecents :: IRecentlyOpened where
  "emptyRecents = \<lparr>workspaces = [], files = []\<rparr>"

definition restoredWorkspaces ::
  "(jsval \<Rightarrow> nat \<Rightarrow> IRecentlyOpened \<Rightarrow> error + IRecentlyOpened) \<Rightarrow> jsval \<times> nat \<Rightarrow> IRecentWs list" where
  "restoredWorkspaces func ei =
     (case func (fst ei) (snd ei) emptyRecents of Inr r \<Rightarrow> workspaces r | Inl e \<Rightarrow> [])"

definition restoredFiles ::
  "(jsval \<Rightarrow> nat \<Rightarrow> IRecentlyOpened \<Rightarrow> error + IRecentlyOpened) \<Rightarrow> jsval \<times> nat \<Rightarrow> IRecentFile list" where
  "restoredFiles func ei =
     (case func (fst ei) (snd ei) emptyRecents of Inr r \<Rightarrow> files r | Inl e \<Rightarrow> [])"

definition restoreWarnings ::
  "(jsval \<Rightarrow> nat \<Rightarrow> IRecentlyOpened \<Rightarrow> error + IRecentlyOpened) \<Rightarrow> jsval \<times> nat \<Rightarrow> warning list" where
  "restoreWarnings func ei =
     (case func (fst ei) (snd ei) emptyRecents of Inr r \<Rightarrow> [] | Inl e \<Rightarrow> [(fst ei, e)])"

text \<open>The entries of an array with their indices.\<close>

definition indexed :: "'a list \<Rightarrow> ('a \<times> nat) list" where
  "indexed xs = zip xs [0..<length xs]"

text \<open>
  The reading of one persisted entry, stated on the shape of the value rather than
  through the guards of the source: an entry is restored as a workspace or folder, as
  a file, skipped without a trace, or fails with an exception. \<open>located\<close> parses the
  location string of an entry that has been recognised.
\<close>

datatype outcome =
    RestoredWorkspace IRecentWs
  | RestoredFile IRecentFile
  | Skipped
  | Failed error

definition stringField :: "(string \<times> jsval) list \<Rightarrow> string \<Rightarrow> string option" where
  "stringField kvs k = (case map_of kvs k of Some (JStr s) \<Rightarrow> Some s | _ \<Rightarrow> None)"

definition objectField :: "(string \<times> jsval) list \<Rightarrow> string \<Rightarrow> (string \<times> jsval) list option" where
  "objectField kvs k = (case map_of kvs k of Some (JObj w) \<Rightarrow> Some w | _ \<Rightarrow> None)"

definition located :: "Deps \<Rightarrow> string \<Rightarrow> (URI \<Rightarrow> outcome) \<Rightarrow> outcome" where
  "located d s k = (case URI_parse d s of None \<Rightarrow> Failed (UriError s) | Some u \<Rightarrow> k u)"

text \<open>
  The \<^verbatim>\<open>id\<close> and \<^verbatim>\<open>configPath\<close> of an entry whose \<^verbatim>\<open>workspace\<close> is an object that holds both
  as strings.
\<close>

definition workspaceFields :: "(string \<times> jsval) list \<Rightarrow> (string \<times> string) option" where
  "workspaceFields kvs =
     (case objectField kvs ''workspace'' of
        None \<Rightarrow> None
      | Some w \<Rightarrow>
          (case stringField w ''id'' of
             None \<Rightarrow> None
           | Some i \<Rightarrow>
               (case stringField w ''configPath'' of
                  None \<Rightarrow> None
                | Some c \<Rightarrow> Some (i, c))))"

text \<open>
  An entry of the current schema: \<^verbatim>\<open>null\<close> and \<^verbatim>\<open>undefined\<close> fail; an object is a workspace
  when it has the workspace fields, else a folder when \<^verbatim>\<open>folderUri\<close> is a string, else a
  file when \<^verbatim>\<open>fileUri\<close> is a string, else it is skipped; every other value is skipped.
\<close>

fun interpretEntry :: "Deps \<Rightarrow> jsval \<Rightarrow> outcome" where
  "interpretEntry d JNull = Failed TypeError"
| "interpretEntry d JUndefined = Failed TypeError"
| "interpretEntry d (JObj kvs) =
     (case workspaceFields kvs of
        Some ic \<Rightarrow>
          located d (snd ic)
            (\<lambda>u. RestoredWorkspace
                   (IRecentWorkspace (WorkspaceIdentifier (fst ic) u)
                      (jsprop (JObj kvs) ''label'') (jsprop (JObj kvs) ''remoteAuthority'')))
      | None \<Rightarrow>
          (case stringField kvs ''folderUri'' of
             Some s \<Rightarrow>
               located d s
                 (\<lambda>u. RestoredWorkspace
                        (IRecentFolder u (jsprop (JObj kvs) ''label'')
                           (jsprop (JObj kvs) ''remoteAuthority'')))
           | None \<Rightarrow>
               (case stringField kvs ''fileUri'' of
                  Some s \<Rightarrow>
                    located d s
                      (\<lambda>u. RestoredFile
                             (IRecentFile u (jsprop (JObj kvs) ''label'')
                                (jsprop (JObj kvs) ''remoteAuthority'')))
                | None \<Rightarrow> Skipped)))"
| "interpretEntry d v = Skipped"

text \<open>
  The legacy schema. The label of the entry at index \<open>i\<close> is the element of the label
  array at \<open>i\<close>, absent when there is no array, the index is out of range or the element
  is \<^verbatim>\<open>null\<close> (or any other falsy value). An element of \<^verbatim>\<open>workspaces3\<close> is a workspace when
  it is an object with the strings \<^verbatim>\<open>id\<close> and \<^verbatim>\<open>configURIPath\<close>, a folder when it is a
  string; \<^verbatim>\<open>null\<close> fails; everything else is skipped. An element of \<^verbatim>\<open>files2\<close> is a file
  when it is a string and is skipped otherwise. Legacy entries have no remote authority.
\<close>

fun labelAt :: "jsval \<Rightarrow> nat \<Rightarrow> jsval" where
  "labelAt (JArr ls) i = (if i < length ls \<and> truthy (ls ! i) then ls ! i else JUndefined)"
| "labelAt v i = JUndefined"

fun interpretLegacyWorkspace :: "Deps \<Rightarrow> jsval \<Rightarrow> jsval \<Rightarrow> outcome" where
  "interpretLegacyWorkspace d lbl JNull = Failed TypeError"
| "interpretLegacyWorkspace d lbl (JStr s) =
     located d s (\<lambda>u. RestoredWorkspace (IRecentFolder u lbl JUndefined))"
| "interpretLegacyWorkspace d lbl (JObj kvs) =
     (case stringField kvs ''id'' of
        None \<Rightarrow> Skipped
      | Some i \<Rightarrow>
          (case stringField kvs ''configURIPath'' of
             None \<Rightarrow> Skipped
           | Some c \<Rightarrow>
               located d c
                 (\<lambda>u. RestoredWorkspace
                        (IRecentWorkspace (WorkspaceIdentifier i u) lbl JUndefined))))"
| "interpretLegacyWorkspace d lbl v = Skipped"

fun interpretLegacyFile :: "Deps \<Rightarrow> jsval \<Rightarrow> jsval \<Rightarrow> outcome" where
  "interpretLegacyFile d lbl (JStr s) =
     located d s (\<lambda>u. RestoredFile (IRecentFile u lbl JUndefined))"
| "interpretLegacyFile d lbl v = Skipped"

fun outcomeWorkspaces :: "outcome \<Rightarrow> IRecentWs list" where
  "outcomeWorkspaces (RestoredWorkspace w) = [w]"
| "outcomeWorkspaces out = []"

fun outcomeFiles :: "outcome \<Rightarrow> IRecentFile list" where
  "outcomeFiles (RestoredFile f) = [f]"
| "outcomeFiles out = []"

fun outcomeWarnings :: "jsval \<Rightarrow> outcome \<Rightarrow> warning list" where
  "outcomeWarnings entry (Failed e) = [(entry, e)]"
| "outcomeWarnings entry out = []"




definition appendRecents :: "IRecentlyOpened \<Rightarrow> IRecentlyOpened \<Rightarrow> IRecentlyOpened" where
  "appendRecents a b = \<lparr>workspaces = workspaces a @ workspaces b, files = files a @ files b\<rparr>"


text \<open>
  Modelled from the spec: the structural-edit utility (\<^verbatim>\<open>vs/base/common/jsonEdit\<close>) is not
  among the sources; the spec describes it as a minimal structural edit that replaces
  only the property it is given and preserves all other content, comments and
  formatting of the text. \<open>foldersEditMinimal jd outside\<close> says so of an observation
  \<open>outside\<close> of a text: what it shows of the text is unchanged by applying the edits
  that set the property \<^verbatim>\<open>folders\<close>.
\<close>

definition foldersEditMinimal :: "'e JsonDeps \<Rightarrow> (string \<Rightarrow> 'a) \<Rightarrow> bool" where
  "foldersEditMinimal jd outside =
     (\<forall>text v fmt.
        outside (applyEdits jd text (setProperty jd text [''folders''] v fmt)) = outside text)"

section \<open>A small instance of the collaborators\<close>

text \<open>
  A POSIX-style instance of the imported functions, on which the statements below are
  evaluated at concrete inputs. \<open>sample_parse\<close> reads \<^verbatim>\<open>scheme://authority/path\<close> and
  \<^verbatim>\<open>scheme:path\<close> and rejects a scheme that is empty or holds a blank, as \<^verbatim>\<open>URI.parse\<close>
  rejects a scheme with illegal characters.
\<close>

definition mkURI :: "string \<Rightarrow> string \<Rightarrow> string \<Rightarrow> URI" where
  "mkURI s a p = \<lparr>scheme = s, authority = a, path = p, query = [], fragment = []\<rparr>"

definition sample_parse :: "string \<Rightarrow> URI option" where
  "sample_parse s =
     (let sch = takeWhile (\<lambda>c. c \<noteq> CHR '':'') s;
          rest = drop 1 (dropWhile (\<lambda>c. c \<noteq> CHR '':'') s)
      in
      if sch = [] \<or> CHR '' '' \<in> set sch \<or> CHR '':'' \<notin> set s then None
      else if take 2 rest = ''//'' then
        Some (mkURI sch (takeWhile (\<lambda>c. c \<noteq> CHR ''/'') (drop 2 rest))
                (dropWhile (\<lambda>c. c \<noteq> CHR ''/'') (drop 2 rest)))
      else Some (mkURI sch [] rest))"

definition sample_toString :: "URI \<Rightarrow> bool \<Rightarrow> string" where
  "sample_toString u skipEncoding =
     scheme u @ '':'' @
     (if authority u \<noteq> [] \<or> scheme u = ''file'' then ''//'' @ authority u else []) @ path u"

definition sampleDeps :: Deps where
  "sampleDeps =
     \<lparr>URI_parse = sample_parse,
      URI_toString = sample_toString,
      URI_fsPath = path,
      normalizeDriveLetter = (\<lambda>p. p),
      toSlashes = map (\<lambda>c. if c = backslash then CHR ''/'' else c),
      isAbsolute = (\<lambda>p. take 1 p = ''/''),
      getRemoteAuthority = (\<lambda>u. JUndefined),
      resources_isEqualAuthority = (\<lambda>a b. a = b)\<rparr>"

definition sample_dirname :: "URI \<Rightarrow> URI" where
  "sample_dirname u =
     u\<lparr>path := rev (drop 1 (dropWhile (\<lambda>c. c \<noteq> CHR ''/'') (rev (path u))))\<rparr>"

definition sample_relativePath :: "URI \<Rightarrow> URI \<Rightarrow> string option" where
  "sample_relativePath from to =
     (if scheme from \<noteq> scheme to \<or> authority from \<noteq> authority to then None
      else if path to = path from then Some []
      else if take (length (path from) + 1) (path to) = path from @ ''/''
      then Some (drop (length (path from) + 1) (path to))
      else None)"

definition sampleExtUri :: IExtUri where
  "sampleExtUri =
     \<lparr>relativePath = sample_relativePath,
      resolvePath = (\<lambda>base p. if take 1 p = ''/'' then base\<lparr>path := p\<rparr>
                               else base\<lparr>path := path base @ ''/'' @ p\<rparr>),
      dirname = sample_dirname,
      basenameOrAuthority = (\<lambda>u. if path u = [] \<or> path u = ''/'' then authority u
                                   else rev (takeWhile (\<lambda>c. c \<noteq> CHR ''/'') (rev (path u)))),
      getComparisonKey = (\<lambda>u. sample_toString u False),
      isEqualAuthority = (\<lambda>a b. a = b)\<rparr>"

text \<open>
  A stand-in for the JSON functions: a text is a first line that holds the folders,
  followed by everything else. \<open>sample_json_parse\<close> is the parse of the example texts;
  setting a property rewrites the first line and removing one changes nothing.
\<close>

definition sampleText :: string where
  "sampleText = ''folders: [5, {path: src}, {path: 7}]'' @ [CHR 0x0A] @ ''// settings follow''"

definition sampleTextBadUri :: string where
  "sampleTextBadUri = ''folders: [5, {uri: a b:c}]''"

definition sampleTextNoFolders :: string where
  "sampleTextNoFolders = ''settings: {}''"

definition sample_json_parse :: "string \<Rightarrow> jsval" where
  "sample_json_parse text =
     (if text = sampleText then
        JObj [(''folders'',
               JArr [JNum 5, JObj [(''path'', JStr ''src'')], JObj [(''path'', JNum 7)]])]
      else if text = sampleTextBadUri then
        JObj [(''folders'', JArr [JNum 5, JObj [(''uri'', JStr ''a b:c'')]])]
      else if text = sampleTextNoFolders then JObj [(''settings'', JObj [])]
      else JUndefined)"

definition afterFirstLine :: "string \<Rightarrow> string" where
  "afterFirstLine text = dropWhile (\<lambda>c. c \<noteq> CHR 0x0A) text"

definition sampleJson :: "(jsval option) JsonDeps" where
  "sampleJson =
     \<lparr>json_parse = sample_json_parse,
      setProperty = (\<lambda>text p v fmt. Some v),
      removeProperty = (\<lambda>text p fmt. None),
      applyEdits = (\<lambda>text e. case e of None \<Rightarrow> text
                                | Some v \<Rightarrow> ''folders: ...'' @ afterFirstLine text)\<rparr>"

text \<open>
  A stand-in for the edit utility that shows the formatting options it is given: the
  edit is the options, and applying it yields their description.
\<close>

definition probeJson :: "FormattingOptions JsonDeps" where
  "probeJson =
     \<lparr>json_parse = sample_json_parse,
      setProperty = (\<lambda>text p v fmt. fmt),
      removeProperty = (\<lambda>text p fmt. fmt),
      applyEdits = (\<lambda>text fmt.
         (if insertSpaces fmt then ''spaces'' else ''tabs'') @
         (if tabSize fmt = 4 then '' 4 '' else '' ? '') @ eol fmt)\<rparr>"


definition posix :: platform where
  "posix = \<lparr>isWindows = False, isLinux = True, isMacintosh = False\<rparr>"

definition windows :: platform where
  "windows = \<lparr>isWindows = True, isLinux = False, isMacintosh = False\<rparr>"

section \<open>The stored form of a folder\<close>

text \<open>
  Claim C2. When the scheme of the folder differs from the scheme of the target
  configuration folder, \<^verbatim>\<open>getStoredWorkspaceFolder\<close> returns the uri form
  \<^verbatim>\<open>{ name, uri: folderURI.toString(true) }\<close>, whatever \<^verbatim>\<open>forceAbsolute\<close>, the folder name,
  the slash flag and the platform are.
\<close>

theorem getStoredWorkspaceFolder_scheme_mismatch:
  "scheme folderURI \<noteq> scheme targetConfigFolderURI \<Longrightarrow>
     getStoredWorkspaceFolder pf d folderURI forceAbsolute folderName targetConfigFolderURI
       useSlash extUri =
     JObj [(''name'', folderName), (''uri'', JStr (URI_toString d folderURI True))]"
  by (simp add: getStoredWorkspaceFolder_def)

theorem getStoredWorkspaceFolder_scheme_mismatch_witness:
  "scheme (mkURI ''vscode-remote'' ''host'' ''/a'') \<noteq> scheme (mkURI ''file'' [] ''/ws'') \<and>
   getStoredWorkspaceFolder posix sampleDeps (mkURI ''vscode-remote'' ''host'' ''/a'') False
     (JStr ''n'') (mkURI ''file'' [] ''/ws'') None sampleExtUri =
   JObj [(''name'', JStr ''n''), (''uri'', JStr ''vscode-remote://host/a'')]"
  using getStoredWorkspaceFolder_scheme_mismatch
          [of "mkURI ''vscode-remote'' ''host'' ''/a''" "mkURI ''file'' [] ''/ws''" posix
              sampleDeps False "JStr ''n''" None sampleExtUri]
  by (simp add: mkURI_def sampleDeps_def sample_toString_def)

lemma replaceSlashes_no_slash: "CHR ''/'' \<notin> set (replaceSlashes s)"
  by (auto simp: replaceSlashes_def backslash_def)

lemma replaceSlashes_length: "length (replaceSlashes s) = length s"
  by (simp add: replaceSlashes_def)

lemma replaceSlashes_nth:
  "i < length s \<Longrightarrow> replaceSlashes s ! i = (if s ! i = CHR ''/'' then backslash else s ! i)"
  by (simp add: replaceSlashes_def)

text \<open>
  Claim C8 (amended). On Windows, with forward slashes switched off and a relative path
  available, the stored path of a folder whose scheme is \<^verbatim>\<open>file\<close> is the relative path
  with every slash replaced by a backslash: \<^verbatim>\<open>a/b\<close> is stored as \<^verbatim>\<open>a\b\<close>. The source
  guards the replacement with \<^verbatim>\<open>folderURI.scheme === Schemas.file\<close>, so for any other
  scheme the relative path is stored as it is.
\<close>

theorem getStoredWorkspaceFolder_windows_backslashes:
  assumes "isWindows pf"
    and "scheme targetConfigFolderURI = scheme folderURI"
    and "relativePath extUri targetConfigFolderURI folderURI = Some p" and "p \<noteq> []"
  shows "getStoredWorkspaceFolder pf d folderURI False folderName targetConfigFolderURI
           (Some False) extUri =
         JObj [(''name'', folderName),
               (''path'', JStr (if scheme folderURI = Schemas_file then replaceSlashes p else p))]
       \<and> CHR ''/'' \<notin> set (replaceSlashes p)
       \<and> length (replaceSlashes p) = length p
       \<and> (\<forall>i<length p. replaceSlashes p ! i = (if p ! i = CHR ''/'' then backslash else p ! i))
       \<and> replaceSlashes ''a/b'' = [CHR ''a'', backslash, CHR ''b'']"
proof -
  have "getStoredWorkspaceFolder pf d folderURI False folderName targetConfigFolderURI
           (Some False) extUri =
         JObj [(''name'', folderName),
               (''path'', JStr (if scheme folderURI = Schemas_file then replaceSlashes p else p))]"
    using assms by (simp add: getStoredWorkspaceFolder_def)
  moreover have "replaceSlashes ''a/b'' = [CHR ''a'', backslash, CHR ''b'']"
    by (simp add: replaceSlashes_def)
  ultimately show ?thesis
    by (simp add: replaceSlashes_no_slash replaceSlashes_length replaceSlashes_nth)
qed

theorem getStoredWorkspaceFolder_windows_backslashes_witness:
  "isWindows windows \<and>
   scheme (mkURI ''file'' [] ''/ws'') = scheme (mkURI ''file'' [] ''/ws/a/b'') \<and>
   relativePath sampleExtUri (mkURI ''file'' [] ''/ws'') (mkURI ''file'' [] ''/ws/a/b'') =
     Some ''a/b'' \<and>
   getStoredWorkspaceFolder windows sampleDeps (mkURI ''file'' [] ''/ws/a/b'') False JUndefined
     (mkURI ''file'' [] ''/ws'') (Some False) sampleExtUri =
   JObj [(''name'', JUndefined), (''path'', JStr [CHR ''a'', backslash, CHR ''b''])]"
proof -
  have h1: "isWindows windows" by (simp add: windows_def)
  have h2: "scheme (mkURI ''file'' [] ''/ws'') = scheme (mkURI ''file'' [] ''/ws/a/b'')"
    by (simp add: mkURI_def)
  have h3: "relativePath sampleExtUri (mkURI ''file'' [] ''/ws'') (mkURI ''file'' [] ''/ws/a/b'') =
              Some ''a/b''"
    by (simp add: sampleExtUri_def sample_relativePath_def mkURI_def)
  have h4: "''a/b'' \<noteq> []" by simp
  have h5: "scheme (mkURI ''file'' [] ''/ws/a/b'') = Schemas_file"
    by (simp add: mkURI_def Schemas_file_def)
  from getStoredWorkspaceFolder_windows_backslashes [OF h1 h2 h3 h4, of sampleDeps JUndefined]
    h1 h2 h3 h5
  show ?thesis by simp
qed

text \<open>
  The claim as written, without the condition on the scheme, fails: on Windows, with
  forward slashes switched off, a folder of the scheme \<^verbatim>\<open>vscode-remote\<close> whose relative
  path is \<^verbatim>\<open>a/b\<close> is stored with the path \<^verbatim>\<open>a/b\<close>.
\<close>

theorem getStoredWorkspaceFolder_windows_backslashes_counterexample:
  "isWindows windows \<and>
   scheme (mkURI ''vscode-remote'' ''host'' ''/ws'') =
     scheme (mkURI ''vscode-remote'' ''host'' ''/ws/a/b'') \<and>
   relativePath sampleExtUri (mkURI ''vscode-remote'' ''host'' ''/ws'')
     (mkURI ''vscode-remote'' ''host'' ''/ws/a/b'') = Some ''a/b'' \<and>
   getStoredWorkspaceFolder windows sampleDeps (mkURI ''vscode-remote'' ''host'' ''/ws/a/b'') False
     JUndefined (mkURI ''vscode-remote'' ''host'' ''/ws'') (Some False) sampleExtUri =
   JObj [(''name'', JUndefined), (''path'', JStr ''a/b'')] \<and>
   ''a/b'' \<noteq> replaceSlashes ''a/b''"
  by (simp add: windows_def mkURI_def sampleExtUri_def sample_relativePath_def
        getStoredWorkspaceFolder_def Schemas_file_def replaceSlashes_def backslash_def)




section \<open>Resolving the stored folders\<close>

lemma keepFirstByKey_subset: "set (keepFirstByKey key xs) \<subseteq> set xs"
  by (induction key xs rule: keepFirstByKey.induct) auto

lemma keepFirstByKey_distinct: "distinct (map key (keepFirstByKey key xs))"
proof (induction key xs rule: keepFirstByKey.induct)
  case (1 key)
  then show ?case by simp
next
  case (2 key x xs)
  have "key x \<notin> key ` set (keepFirstByKey key (filter (\<lambda>y. key y \<noteq> key x) xs))"
    using keepFirstByKey_subset[of key "filter (\<lambda>y. key y \<noteq> key x) xs"] by auto
  with 2 show ?case by simp
qed

lemma resolvedFolders_Nil: "resolvedFolders d extUri rel [] = []"
  by (simp add: resolvedFolders_def List.map_filter_simps)

lemma resolvedFolders_Cons:
  "resolvedFolders d extUri rel (cf # cfs) =
     (case resolveConfiguredFolder d extUri rel cf of
        None \<Rightarrow> resolvedFolders d extUri rel cfs
      | Some u \<Rightarrow> (u, cf) # resolvedFolders d extUri rel cfs)"
  by (simp add: resolvedFolders_def List.map_filter_simps split: option.splits)

lemma toWorkspaceFolders_loop_dedup:
  "map (\<lambda>f. (uri f, raw f)) (fst (toWorkspaceFolders_loop d extUri rel cfs (result, seen))) =
     map (\<lambda>f. (uri f, raw f)) result @
     keepFirstByKey (\<lambda>p. getComparisonKey extUri (fst p))
       (filter (\<lambda>p. getComparisonKey extUri (fst p) \<notin> seen) (resolvedFolders d extUri rel cfs))"
proof (induction cfs arbitrary: result seen)
  case Nil
  then show ?case by (simp add: resolvedFolders_Nil)
next
  case (Cons cf cfs)
  show ?case
  proof (cases "resolveConfiguredFolder d extUri rel cf")
    case None
    then show ?thesis using Cons.IH[of result seen] by (simp add: resolvedFolders_Cons)
  next
    case (Some u)
    show ?thesis
    proof (cases "getComparisonKey extUri u \<in> seen")
      case True
      then show ?thesis using Some Cons.IH[of result seen] by (simp add: resolvedFolders_Cons)
    next
      case False
      let ?k = "\<lambda>p::URI \<times> jsval. getComparisonKey extUri (fst p)"
      let ?new = "\<lparr>uri = u,
                    name = (if truthy (jsprop cf ''name'')
                            then jsprop cf ''name''
                            else JStr (basenameOrAuthority extUri u)),
                    index = length result,
                    raw = cf\<rparr>"
      have step: "toWorkspaceFolders_loop d extUri rel (cf # cfs) (result, seen) =
                  toWorkspaceFolders_loop d extUri rel cfs
                    (result @ [?new], insert (getComparisonKey extUri u) seen)"
        using Some False by (simp add: Let_def)
      have ff: "filter (\<lambda>x. ?k x \<notin> seen \<and> ?k x \<noteq> getComparisonKey extUri u) xs =
                filter (\<lambda>p. ?k p \<notin> insert (getComparisonKey extUri u) seen) xs" for xs
        by (induction xs) auto
      have rhs: "keepFirstByKey ?k (filter (\<lambda>p. ?k p \<notin> seen)
                    (resolvedFolders d extUri rel (cf # cfs))) =
                 (u, cf) # keepFirstByKey ?k
                    (filter (\<lambda>p. ?k p \<notin> insert (getComparisonKey extUri u) seen)
                       (resolvedFolders d extUri rel cfs))"
        using Some False by (simp add: resolvedFolders_Cons ff del: insert_iff)
      have "map (\<lambda>f. (uri f, raw f))
              (fst (toWorkspaceFolders_loop d extUri rel cfs
                      (result @ [?new], insert (getComparisonKey extUri u) seen))) =
            map (\<lambda>f. (uri f, raw f)) (result @ [?new]) @
            keepFirstByKey ?k
              (filter (\<lambda>p. ?k p \<notin> insert (getComparisonKey extUri u) seen)
                 (resolvedFolders d extUri rel cfs))"
        by (rule Cons.IH)
      then show ?thesis
        by (simp only: step rhs) simp
    qed
  qed
qed

lemma toWorkspaceFolders_loop_length:
  "length result \<le> length (fst (toWorkspaceFolders_loop d extUri rel cfs (result, seen)))"
proof (induction cfs arbitrary: result seen)
  case Nil
  then show ?case by simp
next
  case (Cons cf cfs)
  show ?case
  proof (cases "resolveConfiguredFolder d extUri rel cf")
    case None
    then show ?thesis using Cons.IH[of result seen] by simp
  next
    case (Some u)
    show ?thesis
    proof (cases "getComparisonKey extUri u \<in> seen")
      case True
      then show ?thesis using Some Cons.IH[of result seen] by simp
    next
      case False
      then show ?thesis using Some
          Cons.IH[of "result @ [\<lparr>uri = u,
                    name = (if truthy (jsprop cf ''name'')
                            then jsprop cf ''name''
                            else JStr (basenameOrAuthority extUri u)),
                    index = length result,
                    raw = cf\<rparr>]" "insert (getComparisonKey extUri u) seen"]
        by (simp add: Let_def)
    qed
  qed
qed

lemma toWorkspaceFolders_loop_index:
  "map index (fst (toWorkspaceFolders_loop d extUri rel cfs (result, seen))) =
     map index result @
     [length result ..< length (fst (toWorkspaceFolders_loop d extUri rel cfs (result, seen)))]"
proof (induction cfs arbitrary: result seen)
  case Nil
  then show ?case by simp
next
  case (Cons cf cfs)
  show ?case
  proof (cases "resolveConfiguredFolder d extUri rel cf")
    case None
    then show ?thesis using Cons.IH[of result seen] by simp
  next
    case (Some u)
    show ?thesis
    proof (cases "getComparisonKey extUri u \<in> seen")
      case True
      then show ?thesis using Some Cons.IH[of result seen] by simp
    next
      case False
      let ?new = "\<lparr>uri = u,
                    name = (if truthy (jsprop cf ''name'')
                            then jsprop cf ''name''
                            else JStr (basenameOrAuthority extUri u)),
                    index = length result,
                    raw = cf\<rparr>"
      let ?r = "fst (toWorkspaceFolders_loop d extUri rel cfs
                  (result @ [?new], insert (getComparisonKey extUri u) seen))"
      have step: "toWorkspaceFolders_loop d extUri rel (cf # cfs) (result, seen) =
                  toWorkspaceFolders_loop d extUri rel cfs
                    (result @ [?new], insert (getComparisonKey extUri u) seen)"
        using Some False by (simp add: Let_def)
      have len: "Suc (length result) \<le> length ?r"
        using toWorkspaceFolders_loop_length[of "result @ [?new]" d extUri rel cfs
                 "insert (getComparisonKey extUri u) seen"] by simp
      have "map index ?r = map index (result @ [?new]) @ [length (result @ [?new]) ..< length ?r]"
        by (rule Cons.IH)
      also have "\<dots> = map index result @ (length result # [Suc (length result) ..< length ?r])"
        by simp
      also have "length result # [Suc (length result) ..< length ?r] = [length result ..< length ?r]"
        using len upt_conv_Cons[of "length result" "length ?r"] by simp
      finally show ?thesis by (simp only: step)
    qed
  qed
qed

lemma toWorkspaceFolders_loop_name:
  "list_all (\<lambda>f. name f = (if truthy (jsprop (raw f) ''name'') then jsprop (raw f) ''name''
                            else JStr (basenameOrAuthority extUri (uri f)))) result \<Longrightarrow>
   list_all (\<lambda>f. name f = (if truthy (jsprop (raw f) ''name'') then jsprop (raw f) ''name''
                            else JStr (basenameOrAuthority extUri (uri f))))
     (fst (toWorkspaceFolders_loop d extUri rel cfs (result, seen)))"
proof (induction cfs arbitrary: result seen)
  case Nil
  then show ?case by simp
next
  case (Cons cf cfs)
  show ?case
  proof (cases "resolveConfiguredFolder d extUri rel cf")
    case None
    then show ?thesis using Cons.IH[of result seen] Cons.prems by simp
  next
    case (Some u)
    show ?thesis
    proof (cases "getComparisonKey extUri u \<in> seen")
      case True
      then show ?thesis using Some Cons.IH[of result seen] Cons.prems by simp
    next
      case False
      let ?new = "\<lparr>uri = u,
                    name = (if truthy (jsprop cf ''name'')
                            then jsprop cf ''name''
                            else JStr (basenameOrAuthority extUri u)),
                    index = length result,
                    raw = cf\<rparr>"
      have step: "toWorkspaceFolders_loop d extUri rel (cf # cfs) (result, seen) =
                  toWorkspaceFolders_loop d extUri rel cfs
                    (result @ [?new], insert (getComparisonKey extUri u) seen)"
        using Some False by (simp add: Let_def)
      have "list_all (\<lambda>f. name f = (if truthy (jsprop (raw f) ''name'') then jsprop (raw f) ''name''
                            else JStr (basenameOrAuthority extUri (uri f)))) (result @ [?new])"
        using Cons.prems by simp
      from Cons.IH[OF this] show ?thesis by (simp only: step)
    qed
  qed
qed

text \<open>
  Claim C3. The folders \<^verbatim>\<open>toWorkspaceFolders\<close> returns are the stored folders that resolve
  to a location, deduplicated by comparison key with the first occurrence kept; their
  comparison keys are pairwise different; their indices are \<open>0, 1, 2, ...\<close> in the order
  of the result; a folder whose stored entry has no name (or an empty one) is named by
  \<^verbatim>\<open>basenameOrAuthority\<close> of its location, and otherwise by the stored name. Two stored
  folders \<^verbatim>\<open>{"path": "src"}\<close> resolve to one folder, with the location the path \<^verbatim>\<open>src\<close>
  resolves to against the directory of the configuration file, and index 0.
\<close>

theorem toWorkspaceFolders_dedup_index_name:
  "map (\<lambda>f. (uri f, raw f)) (toWorkspaceFolders d cfs cfg extUri) =
     keepFirstByKey (\<lambda>p. getComparisonKey extUri (fst p))
       (resolvedFolders d extUri (dirname extUri cfg) cfs)
   \<and> distinct (map (\<lambda>f. getComparisonKey extUri (uri f)) (toWorkspaceFolders d cfs cfg extUri))
   \<and> map index (toWorkspaceFolders d cfs cfg extUri) =
       [0 ..< length (toWorkspaceFolders d cfs cfg extUri)]
   \<and> (\<forall>f \<in> set (toWorkspaceFolders d cfs cfg extUri).
         name f = (if truthy (jsprop (raw f) ''name'') then jsprop (raw f) ''name''
                   else JStr (basenameOrAuthority extUri (uri f))))
   \<and> toWorkspaceFolders d [JObj [(''path'', JStr ''src'')], JObj [(''path'', JStr ''src'')]]
       cfg extUri =
       [\<lparr>uri = resolvePath extUri (dirname extUri cfg) ''src'',
         name = JStr (basenameOrAuthority extUri
                        (resolvePath extUri (dirname extUri cfg) ''src'')),
         index = 0,
         raw = JObj [(''path'', JStr ''src'')]\<rparr>]"
proof -
  let ?k = "\<lambda>p::URI \<times> jsval. getComparisonKey extUri (fst p)"
  let ?r = "toWorkspaceFolders d cfs cfg extUri"
  have dedup: "map (\<lambda>f. (uri f, raw f)) ?r =
                 keepFirstByKey ?k (resolvedFolders d extUri (dirname extUri cfg) cfs)"
    using toWorkspaceFolders_loop_dedup[of d extUri "dirname extUri cfg" cfs "[]" "{}"]
    by (simp add: toWorkspaceFolders_def)
  have "map (\<lambda>f. getComparisonKey extUri (uri f)) ?r = map ?k (map (\<lambda>f. (uri f, raw f)) ?r)"
    by simp
  then have dist: "distinct (map (\<lambda>f. getComparisonKey extUri (uri f)) ?r)"
    using keepFirstByKey_distinct[of ?k "resolvedFolders d extUri (dirname extUri cfg) cfs"]
    by (simp only: dedup)
  have idx: "map index ?r = [0 ..< length ?r]"
    using toWorkspaceFolders_loop_index[of d extUri "dirname extUri cfg" cfs "[]" "{}"]
    by (simp add: toWorkspaceFolders_def)
  have nm: "\<forall>f \<in> set ?r.
         name f = (if truthy (jsprop (raw f) ''name'') then jsprop (raw f) ''name''
                   else JStr (basenameOrAuthority extUri (uri f)))"
    using toWorkspaceFolders_loop_name[of extUri "[]" d "dirname extUri cfg" cfs "{}"]
    by (simp add: toWorkspaceFolders_def list_all_iff)
  have ex: "toWorkspaceFolders d [JObj [(''path'', JStr ''src'')], JObj [(''path'', JStr ''src'')]]
       cfg extUri =
       [\<lparr>uri = resolvePath extUri (dirname extUri cfg) ''src'',
         name = JStr (basenameOrAuthority extUri
                        (resolvePath extUri (dirname extUri cfg) ''src'')),
         index = 0,
         raw = JObj [(''path'', JStr ''src'')]\<rparr>]"
    by (simp add: toWorkspaceFolders_def resolveConfiguredFolder_def
          isRawFileWorkspaceFolder_def Let_def)
  from dedup dist idx nm ex show ?thesis by blast
qed

theorem toWorkspaceFolders_dedup_index_name_witness:
  "toWorkspaceFolders sampleDeps
     [JObj [(''path'', JStr ''src'')], JObj [(''path'', JStr ''src'')]]
     (mkURI ''file'' [] ''/ws/w.code-workspace'') sampleExtUri =
   [\<lparr>uri = mkURI ''file'' [] ''/ws/src'', name = JStr ''src'', index = 0,
     raw = JObj [(''path'', JStr ''src'')]\<rparr>]"
  using toWorkspaceFolders_dedup_index_name
          [of sampleDeps "[]" "mkURI ''file'' [] ''/ws/w.code-workspace''" sampleExtUri]
  by (simp add: sampleExtUri_def sample_dirname_def mkURI_def)

section \<open>Restoring the recently opened list\<close>

lemma restoreEntry_push:
  "restoreEntry d e i res =
     (case restoreEntry d e j emptyRecents of
        Inl err \<Rightarrow> Inl err
      | Inr r \<Rightarrow> Inr (appendRecents res r))"
  by (simp add: restoreEntry_def emptyRecents_def appendRecents_def parseOrThrow_def
           split: sum.splits option.splits)

lemma restoreLegacyWorkspace_push:
  "restoreLegacyWorkspace d labels e i res =
     (case restoreLegacyWorkspace d labels e i emptyRecents of
        Inl err \<Rightarrow> Inl err
      | Inr r \<Rightarrow> Inr (appendRecents res r))"
  by (simp add: restoreLegacyWorkspace_def emptyRecents_def appendRecents_def parseOrThrow_def
           Let_def split: sum.splits option.splits bool.splits)

lemma restoreLegacyFile_push:
  "restoreLegacyFile d labels e i res =
     (case restoreLegacyFile d labels e i emptyRecents of
        Inl err \<Rightarrow> Inl err
      | Inr r \<Rightarrow> Inr (appendRecents res r))"
  by (simp add: restoreLegacyFile_def emptyRecents_def appendRecents_def parseOrThrow_def
           Let_def split: sum.splits option.splits)

lemma appendRecents_assoc:
  "appendRecents (appendRecents a b) c = appendRecents a (appendRecents b c)"
  by (simp add: appendRecents_def)

lemma appendRecents_empty: "appendRecents emptyRecents a = a" "appendRecents a emptyRecents = a"
  by (simp_all add: appendRecents_def emptyRecents_def)

lemma zip_upt_Cons:
  "zip (e # es) [i ..< i + length (e # es)] = (e, i) # zip es [Suc i ..< Suc i + length es]"
  using upt_conv_Cons[of i "i + length (e # es)"] by simp

lemma restoreGracefully_concat:
  assumes push: "\<And>e i res. func e i res =
                   (case func e i emptyRecents of
                      Inl err \<Rightarrow> Inl err
                    | Inr r \<Rightarrow> Inr (appendRecents res r))"
  shows "restoreGracefully func es i (res, ws) =
           (appendRecents res
              \<lparr>workspaces = concat (map (restoredWorkspaces func) (zip es [i ..< i + length es])),
               files = concat (map (restoredFiles func) (zip es [i ..< i + length es]))\<rparr>,
            ws @ concat (map (restoreWarnings func) (zip es [i ..< i + length es])))"
proof (induction es arbitrary: i res ws)
  case Nil
  then show ?case by (simp add: appendRecents_def)
next
  case (Cons e es)
  show ?case
  proof (cases "func e i emptyRecents")
    case (Inl err)
    then have step: "func e i res = Inl err" using push[of e i res] by simp
    show ?thesis
      using Inl step Cons.IH[of "Suc i" res "ws @ [(e, err)]"]
      by (simp only: zip_upt_Cons restoreGracefully.simps)
         (simp add: restoredWorkspaces_def restoredFiles_def restoreWarnings_def)
  next
    case (Inr r)
    then have step: "func e i res = Inr (appendRecents res r)" using push[of e i res] by simp
    show ?thesis
      using Inr step Cons.IH[of "Suc i" "appendRecents res r" ws]
      by (simp only: zip_upt_Cons restoreGracefully.simps)
         (simp add: restoredWorkspaces_def restoredFiles_def restoreWarnings_def
            appendRecents_def)
  qed
qed

lemma restoreGracefully_indexed:
  assumes push: "\<And>e i res. func e i res =
                   (case func e i emptyRecents of
                      Inl err \<Rightarrow> Inl err
                    | Inr r \<Rightarrow> Inr (appendRecents res r))"
  shows "restoreGracefully func es 0 (res, ws) =
           (appendRecents res
              \<lparr>workspaces = concat (map (restoredWorkspaces func) (indexed es)),
               files = concat (map (restoredFiles func) (indexed es))\<rparr>,
            ws @ concat (map (restoreWarnings func) (indexed es)))"
  using restoreGracefully_concat[of func es 0 res ws, OF push] by (simp add: indexed_def)

lemma restoreLegacyWorkspace_no_files:
  "restoredFiles (restoreLegacyWorkspace d labels) ei = []"
  by (simp add: restoredFiles_def restoreLegacyWorkspace_def emptyRecents_def parseOrThrow_def
        Let_def split: sum.splits option.splits bool.splits)

lemma restoreLegacyFile_no_workspaces:
  "restoredWorkspaces (restoreLegacyFile d labels) ei = []"
  by (simp add: restoredWorkspaces_def restoreLegacyFile_def emptyRecents_def parseOrThrow_def
        Let_def split: sum.splits option.splits)

lemma concat_map_Nil: "(\<And>x. f x = []) \<Longrightarrow> concat (map f xs) = []"
  by (induction xs) auto

lemma restore_current_schema:
  assumes "truthy data" and "jsprop data ''entries'' = JArr es"
  shows "restoreRecentlyOpened d data =
           (\<lparr>workspaces = concat (map (restoredWorkspaces (restoreEntry d)) (indexed es)),
             files = concat (map (restoredFiles (restoreEntry d)) (indexed es))\<rparr>,
            concat (map (restoreWarnings (restoreEntry d)) (indexed es)))"
proof -
  have "restoreGracefully (restoreEntry d) es 0 (emptyRecents, []) =
          (appendRecents emptyRecents
              \<lparr>workspaces = concat (map (restoredWorkspaces (restoreEntry d)) (indexed es)),
               files = concat (map (restoredFiles (restoreEntry d)) (indexed es))\<rparr>,
            [] @ concat (map (restoreWarnings (restoreEntry d)) (indexed es)))"
    by (rule restoreGracefully_indexed) (rule restoreEntry_push)
  then show ?thesis
    using assms by (simp add: restoreRecentlyOpened_def appendRecents_def emptyRecents_def)
qed

lemma elems_not_array: "\<not> isArray v \<Longrightarrow> elems v = []"
  by (cases v) simp_all

lemma restore_legacy_schema:
  assumes "truthy data" and "\<not> isArray (jsprop data ''entries'')"
  shows "restoreRecentlyOpened d data =
           (\<lparr>workspaces =
               concat (map (restoredWorkspaces
                              (restoreLegacyWorkspace d (jsprop data ''workspaceLabels'')))
                         (indexed (elems (jsprop data ''workspaces3'')))),
             files =
               concat (map (restoredFiles (restoreLegacyFile d (jsprop data ''fileLabels'')))
                         (indexed (elems (jsprop data ''files2''))))\<rparr>,
            concat (map (restoreWarnings
                           (restoreLegacyWorkspace d (jsprop data ''workspaceLabels'')))
                      (indexed (elems (jsprop data ''workspaces3'')))) @
            concat (map (restoreWarnings (restoreLegacyFile d (jsprop data ''fileLabels'')))
                      (indexed (elems (jsprop data ''files2'')))))"
proof -
  let ?fw = "restoreLegacyWorkspace d (jsprop data ''workspaceLabels'')"
  let ?ff = "restoreLegacyFile d (jsprop data ''fileLabels'')"
  let ?ws = "elems (jsprop data ''workspaces3'')"
  let ?fs = "elems (jsprop data ''files2'')"
  let ?st1 = "(appendRecents emptyRecents
                 \<lparr>workspaces = concat (map (restoredWorkspaces ?fw) (indexed ?ws)),
                  files = concat (map (restoredFiles ?fw) (indexed ?ws))\<rparr>,
               [] @ concat (map (restoreWarnings ?fw) (indexed ?ws)))"
  have w: "restoreGracefully ?fw ?ws 0 (emptyRecents, []) = ?st1"
    by (rule restoreGracefully_indexed) (rule restoreLegacyWorkspace_push)
  have f: "restoreGracefully ?ff ?fs 0 (r, l) =
             (appendRecents r
                \<lparr>workspaces = concat (map (restoredWorkspaces ?ff) (indexed ?fs)),
                 files = concat (map (restoredFiles ?ff) (indexed ?fs))\<rparr>,
              l @ concat (map (restoreWarnings ?ff) (indexed ?fs)))" for r l
    by (rule restoreGracefully_indexed) (rule restoreLegacyFile_push)
  have nf: "concat (map (restoredFiles ?fw) (indexed ?ws)) = []"
    by (rule concat_map_Nil) (rule restoreLegacyWorkspace_no_files)
  have nw: "concat (map (restoredWorkspaces ?ff) (indexed ?fs)) = []"
    by (rule concat_map_Nil) (rule restoreLegacyFile_no_workspaces)
  have s1: "(if isArray (jsprop data ''workspaces3'')
             then restoreGracefully ?fw ?ws 0 (emptyRecents, [])
             else (emptyRecents, [])) = restoreGracefully ?fw ?ws 0 (emptyRecents, [])"
    by (simp add: elems_not_array)
  have s2: "(if isArray (jsprop data ''files2'') then restoreGracefully ?ff ?fs 0 st else st) =
            restoreGracefully ?ff ?fs 0 st" for st
    by (cases st) (simp add: elems_not_array)
  have "restoreRecentlyOpened d data =
          (if isArray (jsprop data ''files2'')
           then restoreGracefully ?ff ?fs 0
                  (if isArray (jsprop data ''workspaces3'')
                   then restoreGracefully ?fw ?ws 0 (emptyRecents, [])
                   else (emptyRecents, []))
           else (if isArray (jsprop data ''workspaces3'')
                 then restoreGracefully ?fw ?ws 0 (emptyRecents, [])
                 else (emptyRecents, [])))"
    using assms by (simp add: restoreRecentlyOpened_def emptyRecents_def Let_def)
  then have "restoreRecentlyOpened d data =
          restoreGracefully ?ff ?fs 0 (restoreGracefully ?fw ?ws 0 (emptyRecents, []))"
    by (simp only: s1 s2)
  then show ?thesis
    by (simp only: w f nf nw) (simp add: appendRecents_def emptyRecents_def)
qed

lemma restore_falsy: "\<not> truthy data \<Longrightarrow> restoreRecentlyOpened d data = (emptyRecents, [])"
  by (simp add: restoreRecentlyOpened_def emptyRecents_def)

subsection \<open>The callbacks against the reading of an entry by its shape\<close>

lemma typeof_stringField:
  "(typeof (jsprop (JObj kvs) k) = TString) = (stringField kvs k \<noteq> None)"
  by (auto simp: stringField_def split: option.splits jsval.splits)

lemma asString_stringField:
  "stringField kvs k = Some s \<Longrightarrow> asString (jsprop (JObj kvs) k) = s"
  by (auto simp: stringField_def split: option.splits jsval.splits)

lemma isSerializedRecentWorkspace_fields:
  "isSerializedRecentWorkspace (JObj kvs) = (workspaceFields kvs \<noteq> None)"
proof (cases "map_of kvs ''workspace''")
  case None
  then show ?thesis
    by (simp add: isSerializedRecentWorkspace_def workspaceFields_def objectField_def)
next
  case (Some v)
  have pv: "jsprop (JObj kvs) ''workspace'' = v" using Some by simp
  show ?thesis
  proof (cases v)
    case (JObj w)
    have "isSerializedRecentWorkspace (JObj kvs) =
            (stringField w ''id'' \<noteq> None \<and> stringField w ''configPath'' \<noteq> None)"
      unfolding isSerializedRecentWorkspace_def pv JObj typeof_stringField by simp
    moreover have "(workspaceFields kvs \<noteq> None) =
            (stringField w ''id'' \<noteq> None \<and> stringField w ''configPath'' \<noteq> None)"
      using Some JObj by (simp add: workspaceFields_def objectField_def split: option.splits)
    ultimately show ?thesis by simp
  qed (simp_all add: isSerializedRecentWorkspace_def workspaceFields_def objectField_def Some)
qed

lemma workspaceFields_values:
  assumes "workspaceFields kvs = Some ic"
  shows "asString (jsprop (jsprop (JObj kvs) ''workspace'') ''id'') = fst ic"
    and "asString (jsprop (jsprop (JObj kvs) ''workspace'') ''configPath'') = snd ic"
proof -
  from assms obtain w where w: "map_of kvs ''workspace'' = Some (JObj w)"
    and i: "stringField w ''id'' = Some (fst ic)"
    and c: "stringField w ''configPath'' = Some (snd ic)"
    by (auto simp: workspaceFields_def objectField_def split: option.splits jsval.splits)
  show "asString (jsprop (jsprop (JObj kvs) ''workspace'') ''id'') = fst ic"
    using w asString_stringField[OF i] by simp
  show "asString (jsprop (jsprop (JObj kvs) ''workspace'') ''configPath'') = snd ic"
    using w asString_stringField[OF c] by simp
qed

lemma isSerializedRecentFolder_field:
  "isSerializedRecentFolder (JObj kvs) = (stringField kvs ''folderUri'' \<noteq> None)"
  unfolding isSerializedRecentFolder_def by (rule typeof_stringField)

lemma isSerializedRecentFile_field:
  "isSerializedRecentFile (JObj kvs) = (stringField kvs ''fileUri'' \<noteq> None)"
  unfolding isSerializedRecentFile_def by (rule typeof_stringField)

lemma emptyRecents_fields: "workspaces emptyRecents = []" "files emptyRecents = []"
  by (simp_all add: emptyRecents_def)

lemma restoreEntry_object:
  "restoreEntry d (JObj kvs) i emptyRecents =
     (case interpretEntry d (JObj kvs) of
        RestoredWorkspace w \<Rightarrow> Inr \<lparr>workspaces = [w], files = []\<rparr>
      | RestoredFile f \<Rightarrow> Inr \<lparr>workspaces = [], files = [f]\<rparr>
      | Skipped \<Rightarrow> Inr emptyRecents
      | Failed err \<Rightarrow> Inl err)"
proof (cases "workspaceFields kvs")
  case (Some ic)
  then have g: "isSerializedRecentWorkspace (JObj kvs)"
    by (simp add: isSerializedRecentWorkspace_fields)
  show ?thesis
    using Some g workspaceFields_values[OF Some]
    by (simp add: restoreEntry_def parseOrThrow_def located_def emptyRecents_def
          split: option.splits)
next
  case None
  then have g: "\<not> isSerializedRecentWorkspace (JObj kvs)"
    by (simp add: isSerializedRecentWorkspace_fields)
  show ?thesis
  proof (cases "stringField kvs ''folderUri''")
    case (Some s)
    then have f: "isSerializedRecentFolder (JObj kvs)"
      by (simp add: isSerializedRecentFolder_field)
    show ?thesis
      using None g Some f asString_stringField[OF Some]
      by (simp add: restoreEntry_def parseOrThrow_def located_def emptyRecents_def
            split: option.splits)
  next
    case nf: None
    then have f: "\<not> isSerializedRecentFolder (JObj kvs)"
      by (simp add: isSerializedRecentFolder_field)
    show ?thesis
    proof (cases "stringField kvs ''fileUri''")
      case (Some s)
      then have h: "isSerializedRecentFile (JObj kvs)"
        by (simp add: isSerializedRecentFile_field)
      show ?thesis
        using None g nf f Some h asString_stringField[OF Some]
        by (simp add: restoreEntry_def parseOrThrow_def located_def emptyRecents_def
              split: option.splits)
    next
      case nh: None
      then have h: "\<not> isSerializedRecentFile (JObj kvs)"
        by (simp add: isSerializedRecentFile_field)
      show ?thesis
        using None g nf f nh h
        by (simp add: restoreEntry_def emptyRecents_def)
    qed
  qed
qed

lemma restoreEntry_outcome:
  "restoreEntry d e i emptyRecents =
     (case interpretEntry d e of
        RestoredWorkspace w \<Rightarrow> Inr \<lparr>workspaces = [w], files = []\<rparr>
      | RestoredFile f \<Rightarrow> Inr \<lparr>workspaces = [], files = [f]\<rparr>
      | Skipped \<Rightarrow> Inr emptyRecents
      | Failed err \<Rightarrow> Inl err)"
proof (cases e)
  case (JObj kvs)
  then show ?thesis by (simp only: restoreEntry_object)
qed (simp_all add: restoreEntry_def isSerializedRecentWorkspace_def isSerializedRecentFolder_def
       isSerializedRecentFile_def)

lemma restoreEntry_contributions:
  "restoredWorkspaces (restoreEntry d) (e, i) = outcomeWorkspaces (interpretEntry d e)"
  "restoredFiles (restoreEntry d) (e, i) = outcomeFiles (interpretEntry d e)"
  "restoreWarnings (restoreEntry d) (e, i) = outcomeWarnings e (interpretEntry d e)"
  by (simp_all add: restoredWorkspaces_def restoredFiles_def restoreWarnings_def
        restoreEntry_outcome emptyRecents_fields split: outcome.splits)

lemma legacyLabel_labelAt: "legacyLabel labels i = labelAt labels i"
  by (cases labels) (simp_all add: legacyLabel_def at_index_def)

lemma restoreLegacyWorkspace_outcome:
  "restoreLegacyWorkspace d labels e i emptyRecents =
     (case interpretLegacyWorkspace d (labelAt labels i) e of
        RestoredWorkspace w \<Rightarrow> Inr \<lparr>workspaces = [w], files = []\<rparr>
      | RestoredFile f \<Rightarrow> Inr \<lparr>workspaces = [], files = [f]\<rparr>
      | Skipped \<Rightarrow> Inr emptyRecents
      | Failed err \<Rightarrow> Inl err)"
proof (cases e)
  case (JObj kvs)
  have p: "jsprop (JObj kvs) k = jsprop e k" for k using JObj by simp
  show ?thesis
  proof (cases "stringField kvs ''id''")
    case None
    then have "typeof (jsprop e ''id'') \<noteq> TString"
      using typeof_stringField[of kvs "''id''"] p by simp
    then show ?thesis using None JObj
      by (simp add: restoreLegacyWorkspace_def legacyLabel_labelAt emptyRecents_def)
  next
    case (Some i')
    then have ti: "typeof (jsprop e ''id'') = TString"
      using typeof_stringField[of kvs "''id''"] p by simp
    show ?thesis
    proof (cases "stringField kvs ''configURIPath''")
      case None
      then have "typeof (jsprop e ''configURIPath'') \<noteq> TString"
        using typeof_stringField[of kvs "''configURIPath''"] p by simp
      then show ?thesis using None Some JObj
        by (simp add: restoreLegacyWorkspace_def legacyLabel_labelAt emptyRecents_def)
    next
      case c: (Some c')
      then have tc: "typeof (jsprop e ''configURIPath'') = TString"
        using typeof_stringField[of kvs "''configURIPath''"] p by simp
      show ?thesis
        using Some c ti tc JObj asString_stringField[OF Some] asString_stringField[OF c]
        by (simp add: restoreLegacyWorkspace_def legacyLabel_labelAt emptyRecents_def
              parseOrThrow_def located_def split: option.splits)
    qed
  qed
qed (simp_all add: restoreLegacyWorkspace_def legacyLabel_labelAt emptyRecents_def
       parseOrThrow_def located_def split: option.splits)

lemma restoreLegacyFile_outcome:
  "restoreLegacyFile d labels e i emptyRecents =
     (case interpretLegacyFile d (labelAt labels i) e of
        RestoredWorkspace w \<Rightarrow> Inr \<lparr>workspaces = [w], files = []\<rparr>
      | RestoredFile f \<Rightarrow> Inr \<lparr>workspaces = [], files = [f]\<rparr>
      | Skipped \<Rightarrow> Inr emptyRecents
      | Failed err \<Rightarrow> Inl err)"
  by (cases e)
     (simp_all add: restoreLegacyFile_def legacyLabel_labelAt emptyRecents_def
        parseOrThrow_def located_def split: option.splits)

lemma restoreLegacyWorkspace_contributions:
  "restoredWorkspaces (restoreLegacyWorkspace d labels) ei =
     outcomeWorkspaces (interpretLegacyWorkspace d (labelAt labels (snd ei)) (fst ei))"
  "restoreWarnings (restoreLegacyWorkspace d labels) ei =
     outcomeWarnings (fst ei) (interpretLegacyWorkspace d (labelAt labels (snd ei)) (fst ei))"
  by (simp_all add: restoredWorkspaces_def restoreWarnings_def
        restoreLegacyWorkspace_outcome emptyRecents_fields split: outcome.splits)

lemma restoreLegacyFile_contributions:
  "restoredFiles (restoreLegacyFile d labels) ei =
     outcomeFiles (interpretLegacyFile d (labelAt labels (snd ei)) (fst ei))"
  "restoreWarnings (restoreLegacyFile d labels) ei =
     outcomeWarnings (fst ei) (interpretLegacyFile d (labelAt labels (snd ei)) (fst ei))"
  by (simp_all add: restoredFiles_def restoreWarnings_def
        restoreLegacyFile_outcome emptyRecents_fields split: outcome.splits)

lemma restoreEntry_ignores_index: "restoreEntry d e i res = restoreEntry d e j res"
  by (simp add: restoreEntry_def)

lemma restoreEntry_index_free:
  "restoredWorkspaces (restoreEntry d) (e, i) = restoredWorkspaces (restoreEntry d) (e, 0)"
  "restoredFiles (restoreEntry d) (e, i) = restoredFiles (restoreEntry d) (e, 0)"
  "restoreWarnings (restoreEntry d) (e, i) = restoreWarnings (restoreEntry d) (e, 0)"
  using restoreEntry_ignores_index[of d e i emptyRecents 0]
  by (simp_all add: restoredWorkspaces_def restoredFiles_def restoreWarnings_def
        split: sum.splits)

lemma map_indexed_index_free:
  assumes "\<And>e i. g (e, i) = g (e, 0)"
  shows "map g (zip es [i ..< i + length es]) = map (\<lambda>e. g (e, 0)) es"
proof (induction es arbitrary: i)
  case Nil
  then show ?case by simp
next
  case (Cons e es)
  show ?case
    using Cons.IH[of "Suc i"] assms[of e i]
    by (simp only: zip_upt_Cons) simp
qed

lemma restore_entries:
  "restoreRecentlyOpened d (JObj [(''entries'', JArr es)]) =
     (\<lparr>workspaces = concat (map (\<lambda>e. restoredWorkspaces (restoreEntry d) (e, 0)) es),
       files = concat (map (\<lambda>e. restoredFiles (restoreEntry d) (e, 0)) es)\<rparr>,
      concat (map (\<lambda>e. restoreWarnings (restoreEntry d) (e, 0)) es))"
proof -
  have a: "map (restoredWorkspaces (restoreEntry d)) (indexed es) =
           map (\<lambda>e. restoredWorkspaces (restoreEntry d) (e, 0)) es"
    using map_indexed_index_free[of "restoredWorkspaces (restoreEntry d)" es 0,
            OF restoreEntry_index_free(1)]
    by (simp add: indexed_def)
  have b: "map (restoredFiles (restoreEntry d)) (indexed es) =
           map (\<lambda>e. restoredFiles (restoreEntry d) (e, 0)) es"
    using map_indexed_index_free[of "restoredFiles (restoreEntry d)" es 0,
            OF restoreEntry_index_free(2)]
    by (simp add: indexed_def)
  have c: "map (restoreWarnings (restoreEntry d)) (indexed es) =
           map (\<lambda>e. restoreWarnings (restoreEntry d) (e, 0)) es"
    using map_indexed_index_free[of "restoreWarnings (restoreEntry d)" es 0,
            OF restoreEntry_index_free(3)]
    by (simp add: indexed_def)
  have "restoreRecentlyOpened d (JObj [(''entries'', JArr es)]) =
           (\<lparr>workspaces = concat (map (restoredWorkspaces (restoreEntry d)) (indexed es)),
             files = concat (map (restoredFiles (restoreEntry d)) (indexed es))\<rparr>,
            concat (map (restoreWarnings (restoreEntry d)) (indexed es)))"
    by (rule restore_current_schema) simp_all
  then show ?thesis by (simp only: a b c)
qed

lemma map_indexed_fst:
  assumes "\<And>e i. g (e, i) = h e"
  shows "map g (zip es [i ..< i + length es]) = map h es"
proof (induction es arbitrary: i)
  case Nil
  then show ?case by simp
next
  case (Cons e es)
  show ?case
    using Cons.IH[of "Suc i"] assms[of e i]
    by (simp only: zip_upt_Cons) simp
qed

lemma restore_current_outcomes:
  assumes "truthy data" and "jsprop data ''entries'' = JArr es"
  shows "restoreRecentlyOpened d data =
           (\<lparr>workspaces = concat (map (\<lambda>e. outcomeWorkspaces (interpretEntry d e)) es),
             files = concat (map (\<lambda>e. outcomeFiles (interpretEntry d e)) es)\<rparr>,
            concat (map (\<lambda>e. outcomeWarnings e (interpretEntry d e)) es))"
proof -
  have a: "map (restoredWorkspaces (restoreEntry d)) (indexed es) =
           map (\<lambda>e. outcomeWorkspaces (interpretEntry d e)) es"
    using map_indexed_fst[of "restoredWorkspaces (restoreEntry d)"
            "\<lambda>e. outcomeWorkspaces (interpretEntry d e)" es 0,
            OF restoreEntry_contributions(1)]
    by (simp add: indexed_def)
  have b: "map (restoredFiles (restoreEntry d)) (indexed es) =
           map (\<lambda>e. outcomeFiles (interpretEntry d e)) es"
    using map_indexed_fst[of "restoredFiles (restoreEntry d)"
            "\<lambda>e. outcomeFiles (interpretEntry d e)" es 0,
            OF restoreEntry_contributions(2)]
    by (simp add: indexed_def)
  have c: "map (restoreWarnings (restoreEntry d)) (indexed es) =
           map (\<lambda>e. outcomeWarnings e (interpretEntry d e)) es"
    using map_indexed_fst[of "restoreWarnings (restoreEntry d)"
            "\<lambda>e. outcomeWarnings e (interpretEntry d e)" es 0,
            OF restoreEntry_contributions(3)]
    by (simp add: indexed_def)
  show ?thesis
    using restore_current_schema[OF assms, of d] by (simp only: a b c)
qed

lemma restore_legacy_outcomes:
  assumes "truthy data" and "\<not> isArray (jsprop data ''entries'')"
  shows "restoreRecentlyOpened d data =
           (\<lparr>workspaces =
               concat (map (\<lambda>ei. outcomeWorkspaces
                                   (interpretLegacyWorkspace d
                                      (labelAt (jsprop data ''workspaceLabels'') (snd ei))
                                      (fst ei)))
                         (indexed (elems (jsprop data ''workspaces3'')))),
             files =
               concat (map (\<lambda>ei. outcomeFiles
                                   (interpretLegacyFile d
                                      (labelAt (jsprop data ''fileLabels'') (snd ei)) (fst ei)))
                         (indexed (elems (jsprop data ''files2''))))\<rparr>,
            concat (map (\<lambda>ei. outcomeWarnings (fst ei)
                                (interpretLegacyWorkspace d
                                   (labelAt (jsprop data ''workspaceLabels'') (snd ei))
                                   (fst ei)))
                      (indexed (elems (jsprop data ''workspaces3'')))) @
            concat (map (\<lambda>ei. outcomeWarnings (fst ei)
                                (interpretLegacyFile d
                                   (labelAt (jsprop data ''fileLabels'') (snd ei)) (fst ei)))
                      (indexed (elems (jsprop data ''files2'')))))"
proof -
  have a: "restoredWorkspaces (restoreLegacyWorkspace d L) =
             (\<lambda>ei. outcomeWorkspaces (interpretLegacyWorkspace d (labelAt L (snd ei)) (fst ei)))"
    for L by (rule ext) (rule restoreLegacyWorkspace_contributions(1))
  have b: "restoreWarnings (restoreLegacyWorkspace d L) =
             (\<lambda>ei. outcomeWarnings (fst ei)
                      (interpretLegacyWorkspace d (labelAt L (snd ei)) (fst ei)))"
    for L by (rule ext) (rule restoreLegacyWorkspace_contributions(2))
  have c: "restoredFiles (restoreLegacyFile d L) =
             (\<lambda>ei. outcomeFiles (interpretLegacyFile d (labelAt L (snd ei)) (fst ei)))"
    for L by (rule ext) (rule restoreLegacyFile_contributions(1))
  have e: "restoreWarnings (restoreLegacyFile d L) =
             (\<lambda>ei. outcomeWarnings (fst ei)
                      (interpretLegacyFile d (labelAt L (snd ei)) (fst ei)))"
    for L by (rule ext) (rule restoreLegacyFile_contributions(2))
  show ?thesis
    using restore_legacy_schema[OF assms, of d] by (simp only: a b c e)
qed

lemma restore_entries_outcomes:
  "restoreRecentlyOpened d (JObj [(''entries'', JArr es)]) =
     (\<lparr>workspaces = concat (map (\<lambda>e. outcomeWorkspaces (interpretEntry d e)) es),
       files = concat (map (\<lambda>e. outcomeFiles (interpretEntry d e)) es)\<rparr>,
      concat (map (\<lambda>e. outcomeWarnings e (interpretEntry d e)) es))"
  by (rule restore_current_outcomes) simp_all

lemma restore_entries_drop_failed:
  assumes "interpretEntry d e = Failed err"
  shows "fst (restoreRecentlyOpened d (JObj [(''entries'', JArr (xs @ e # ys))])) =
         fst (restoreRecentlyOpened d (JObj [(''entries'', JArr (xs @ ys))]))"
    and "snd (restoreRecentlyOpened d (JObj [(''entries'', JArr (xs @ e # ys))])) =
         snd (restoreRecentlyOpened d (JObj [(''entries'', JArr xs)])) @ [(e, err)] @
         snd (restoreRecentlyOpened d (JObj [(''entries'', JArr ys)]))"
  using assms by (simp_all add: restore_entries_outcomes)

lemma restore_entries_drop_skipped:
  assumes "interpretEntry d e = Skipped"
  shows "restoreRecentlyOpened d (JObj [(''entries'', JArr (xs @ e # ys))]) =
         restoreRecentlyOpened d (JObj [(''entries'', JArr (xs @ ys))])"
  using assms by (simp add: restore_entries_outcomes)

lemma restore_three_entries:
  assumes "URI_parse d c1 = Some u1" and "URI_parse d c2 = None" and "URI_parse d c3 = Some u3"
  shows "restoreRecentlyOpened d
           (JObj [(''entries'',
              JArr [JObj [(''workspace'', JObj [(''id'', JStr i1), (''configPath'', JStr c1)])],
                    JObj [(''workspace'', JObj [(''id'', JStr i2), (''configPath'', JStr c2)])],
                    JObj [(''workspace'', JObj [(''id'', JStr i3), (''configPath'', JStr c3)])]])]) =
         (\<lparr>workspaces = [IRecentWorkspace (WorkspaceIdentifier i1 u1) JUndefined JUndefined,
                          IRecentWorkspace (WorkspaceIdentifier i3 u3) JUndefined JUndefined],
           files = []\<rparr>,
          [(JObj [(''workspace'', JObj [(''id'', JStr i2), (''configPath'', JStr c2)])],
            UriError c2)])"
  using assms
  by (simp add: restore_entries restoredWorkspaces_def restoredFiles_def restoreWarnings_def
        restoreEntry_def isSerializedRecentWorkspace_def parseOrThrow_def emptyRecents_def)

lemma restore_legacy_example:
  assumes "URI_parse d f = Some uf" and "URI_parse d c = Some uc" and "URI_parse d a = Some ua"
  shows "restoreRecentlyOpened d
           (JObj [(''workspaces3'',
                     JArr [JStr f, JObj [(''id'', JStr i), (''configURIPath'', JStr c)], JNull,
                           JNum 7]),
                  (''workspaceLabels'', JArr [JStr ''L'', JNull]),
                  (''files2'', JArr [JStr a])]) =
         (\<lparr>workspaces = [IRecentFolder uf (JStr ''L'') JUndefined,
                          IRecentWorkspace (WorkspaceIdentifier i uc) JUndefined JUndefined],
           files = [IRecentFile ua JUndefined JUndefined]\<rparr>,
          [(JNull, TypeError)])"
  using assms
  by (simp add: restoreRecentlyOpened_def restoreLegacyWorkspace_def restoreLegacyFile_def
        legacyLabel_def at_index_def parseOrThrow_def Let_def)

lemma restore_legacy_single_folder:
  assumes "URI_parse d f = Some uf"
  shows "restoreRecentlyOpened d (JObj [(''workspaces3'', JArr [JStr f]), (''files2'', JArr [])]) =
         (\<lparr>workspaces = [IRecentFolder uf JUndefined JUndefined], files = []\<rparr>, [])"
  using assms
  by (simp add: restoreRecentlyOpened_def restoreLegacyWorkspace_def legacyLabel_def
        parseOrThrow_def Let_def)

text \<open>
  Claim C1 (amended). \<^verbatim>\<open>restoreRecentlyOpened\<close> always returns a result and a list of
  warnings. For the current schema the result is the concatenation, in order, of what
  each entry is read as by its shape, and for the legacy schema likewise, each element
  with the label at its index (an absent or non-array list counts as empty, and absent
  data restores to nothing). An entry whose reading raises an exception (a location
  that \<^verbatim>\<open>URI.parse\<close> rejects, a \<^verbatim>\<open>null\<close> entry) is caught and logged, only that entry is
  dropped, and every other entry is restored as before. An entry of a wrong shape that
  raises nothing (a number, an object with none of the expected fields) is dropped as
  well, but silently: it causes no warning. Three workspace entries of which the second
  has a \<^verbatim>\<open>configPath\<close> that \<^verbatim>\<open>URI.parse\<close> rejects restore to the first and the third, with
  one warning; a legacy list of a folder string, a workspace object, \<^verbatim>\<open>null\<close> and a
  number restores the folder (with its label) and the workspace, and logs the \<^verbatim>\<open>null\<close>;
  a legacy list of one location string and no files restores exactly one folder.
\<close>

theorem restoreRecentlyOpened_isolates_failures:
  "(truthy data \<and> jsprop data ''entries'' = JArr es \<longrightarrow>
      restoreRecentlyOpened d data =
        (\<lparr>workspaces = concat (map (\<lambda>e. outcomeWorkspaces (interpretEntry d e)) es),
          files = concat (map (\<lambda>e. outcomeFiles (interpretEntry d e)) es)\<rparr>,
         concat (map (\<lambda>e. outcomeWarnings e (interpretEntry d e)) es)))
   \<and> (truthy data \<and> \<not> isArray (jsprop data ''entries'') \<longrightarrow>
      restoreRecentlyOpened d data =
        (\<lparr>workspaces =
            concat (map (\<lambda>ei. outcomeWorkspaces
                                (interpretLegacyWorkspace d
                                   (labelAt (jsprop data ''workspaceLabels'') (snd ei))
                                   (fst ei)))
                      (indexed (elems (jsprop data ''workspaces3'')))),
          files =
            concat (map (\<lambda>ei. outcomeFiles
                                (interpretLegacyFile d
                                   (labelAt (jsprop data ''fileLabels'') (snd ei)) (fst ei)))
                      (indexed (elems (jsprop data ''files2''))))\<rparr>,
         concat (map (\<lambda>ei. outcomeWarnings (fst ei)
                             (interpretLegacyWorkspace d
                                (labelAt (jsprop data ''workspaceLabels'') (snd ei))
                                (fst ei)))
                   (indexed (elems (jsprop data ''workspaces3'')))) @
         concat (map (\<lambda>ei. outcomeWarnings (fst ei)
                             (interpretLegacyFile d
                                (labelAt (jsprop data ''fileLabels'') (snd ei)) (fst ei)))
                   (indexed (elems (jsprop data ''files2''))))))
   \<and> (\<not> truthy data \<longrightarrow> restoreRecentlyOpened d data = (emptyRecents, []))
   \<and> (interpretEntry d e = Failed err \<longrightarrow>
      fst (restoreRecentlyOpened d (JObj [(''entries'', JArr (xs @ e # ys))])) =
      fst (restoreRecentlyOpened d (JObj [(''entries'', JArr (xs @ ys))])) \<and>
      snd (restoreRecentlyOpened d (JObj [(''entries'', JArr (xs @ e # ys))])) =
      snd (restoreRecentlyOpened d (JObj [(''entries'', JArr xs)])) @ [(e, err)] @
      snd (restoreRecentlyOpened d (JObj [(''entries'', JArr ys)])))
   \<and> (interpretEntry d e = Skipped \<longrightarrow>
      restoreRecentlyOpened d (JObj [(''entries'', JArr (xs @ e # ys))]) =
      restoreRecentlyOpened d (JObj [(''entries'', JArr (xs @ ys))]))
   \<and> (URI_parse d c1 = Some u1 \<and> URI_parse d c2 = None \<and> URI_parse d c3 = Some u3 \<longrightarrow>
      restoreRecentlyOpened d
        (JObj [(''entries'',
           JArr [JObj [(''workspace'', JObj [(''id'', JStr i1), (''configPath'', JStr c1)])],
                 JObj [(''workspace'', JObj [(''id'', JStr i2), (''configPath'', JStr c2)])],
                 JObj [(''workspace'', JObj [(''id'', JStr i3), (''configPath'', JStr c3)])]])]) =
      (\<lparr>workspaces = [IRecentWorkspace (WorkspaceIdentifier i1 u1) JUndefined JUndefined,
                       IRecentWorkspace (WorkspaceIdentifier i3 u3) JUndefined JUndefined],
        files = []\<rparr>,
       [(JObj [(''workspace'', JObj [(''id'', JStr i2), (''configPath'', JStr c2)])],
         UriError c2)]))
   \<and> (URI_parse d c1 = Some u1 \<and> URI_parse d c3 = Some u3 \<longrightarrow>
      restoreRecentlyOpened d
        (JObj [(''workspaces3'',
                  JArr [JStr c1, JObj [(''id'', JStr i1), (''configURIPath'', JStr c3)], JNull,
                        JNum 7]),
               (''workspaceLabels'', JArr [JStr ''L'', JNull]),
               (''files2'', JArr [JStr c1])]) =
      (\<lparr>workspaces = [IRecentFolder u1 (JStr ''L'') JUndefined,
                       IRecentWorkspace (WorkspaceIdentifier i1 u3) JUndefined JUndefined],
        files = [IRecentFile u1 JUndefined JUndefined]\<rparr>,
       [(JNull, TypeError)]))
   \<and> (URI_parse d c1 = Some u1 \<longrightarrow>
      restoreRecentlyOpened d
        (JObj [(''workspaces3'', JArr [JStr c1]), (''files2'', JArr [])]) =
      (\<lparr>workspaces = [IRecentFolder u1 JUndefined JUndefined], files = []\<rparr>, []))"
proof -
  note a = restore_current_outcomes[of data es d]
  note l = restore_legacy_single_folder[of d c1 u1]
  note b = restore_legacy_outcomes[of data d]
  note c = restore_falsy[of data d]
  note f1 = restore_entries_drop_failed(1)[of d e err xs ys]
  note f2 = restore_entries_drop_failed(2)[of d e err xs ys]
  note g = restore_entries_drop_skipped[of d e xs ys]
  note h = restore_three_entries[of d c1 u1 c2 c3 u3 i1 i2 i3]
  note k = restore_legacy_example[of d c1 u1 c3 u3 c1 u1 i1]
  show ?thesis
    apply (intro conjI impI)
    subgoal using a by blast
    subgoal using b by blast
    subgoal using c by blast
    subgoal using f1 by blast
    subgoal using f2 by blast
    subgoal using g by blast
    subgoal using h by blast
    subgoal using k by blast
    subgoal using l by blast
    done
qed

theorem restoreRecentlyOpened_isolates_failures_witness:
  "URI_parse sampleDeps ''file:///a.code-workspace'' = Some (mkURI ''file'' [] ''/a.code-workspace'') \<and>
   URI_parse sampleDeps ''a b:c'' = None \<and>
   URI_parse sampleDeps ''file:///c.code-workspace'' = Some (mkURI ''file'' [] ''/c.code-workspace'') \<and>
   restoreRecentlyOpened sampleDeps
     (JObj [(''entries'',
        JArr [JObj [(''workspace'',
                JObj [(''id'', JStr ''1''), (''configPath'', JStr ''file:///a.code-workspace'')])],
              JObj [(''workspace'',
                JObj [(''id'', JStr ''2''), (''configPath'', JStr ''a b:c'')])],
              JObj [(''workspace'',
                JObj [(''id'', JStr ''3''), (''configPath'', JStr ''file:///c.code-workspace'')])]])]) =
   (\<lparr>workspaces =
       [IRecentWorkspace (WorkspaceIdentifier ''1'' (mkURI ''file'' [] ''/a.code-workspace''))
          JUndefined JUndefined,
        IRecentWorkspace (WorkspaceIdentifier ''3'' (mkURI ''file'' [] ''/c.code-workspace''))
          JUndefined JUndefined],
     files = []\<rparr>,
    [(JObj [(''workspace'', JObj [(''id'', JStr ''2''), (''configPath'', JStr ''a b:c'')])],
      UriError ''a b:c'')]) \<and>
   restoreRecentlyOpened sampleDeps
     (JObj [(''workspaces3'',
               JArr [JStr ''file:///a.code-workspace'',
                     JObj [(''id'', JStr ''1''),
                           (''configURIPath'', JStr ''file:///c.code-workspace'')],
                     JNull, JNum 7]),
            (''workspaceLabels'', JArr [JStr ''L'', JNull]),
            (''files2'', JArr [JStr ''file:///a.code-workspace''])]) =
   (\<lparr>workspaces =
       [IRecentFolder (mkURI ''file'' [] ''/a.code-workspace'') (JStr ''L'') JUndefined,
        IRecentWorkspace (WorkspaceIdentifier ''1'' (mkURI ''file'' [] ''/c.code-workspace''))
          JUndefined JUndefined],
     files = [IRecentFile (mkURI ''file'' [] ''/a.code-workspace'') JUndefined JUndefined]\<rparr>,
    [(JNull, TypeError)])"
proof -
  have h1: "URI_parse sampleDeps ''file:///a.code-workspace'' =
              Some (mkURI ''file'' [] ''/a.code-workspace'')"
    by (simp add: sampleDeps_def sample_parse_def mkURI_def)
  have h2: "URI_parse sampleDeps ''a b:c'' = None"
    by (simp add: sampleDeps_def sample_parse_def)
  have h3: "URI_parse sampleDeps ''file:///c.code-workspace'' =
              Some (mkURI ''file'' [] ''/c.code-workspace'')"
    by (simp add: sampleDeps_def sample_parse_def mkURI_def)
  from restoreRecentlyOpened_isolates_failures
         [where d = sampleDeps and data = JNull and es = "[]" and e = JNull and err = TypeError
            and xs = "[]" and ys = "[]"
            and ?c1.0 = "''file:///a.code-workspace''"
            and ?u1.0 = "mkURI ''file'' [] ''/a.code-workspace''"
            and ?c2.0 = "''a b:c''" and ?c3.0 = "''file:///c.code-workspace''"
            and ?u3.0 = "mkURI ''file'' [] ''/c.code-workspace''"
            and ?i1.0 = "''1''" and ?i2.0 = "''2''" and ?i3.0 = "''3''"]
    h1 h2 h3
  show ?thesis by blast
qed

text \<open>
  The claim as written has every failure to interpret an entry, a wrong shape included,
  caught and logged. The number \<^verbatim>\<open>5\<close>, the empty object and a workspace whose \<^verbatim>\<open>id\<close> is a
  number are entries of a wrong shape; they are dropped and nothing is logged.
\<close>

theorem restoreRecentlyOpened_silent_skip_counterexample:
  "restoreRecentlyOpened sampleDeps
     (JObj [(''entries'',
        JArr [JNum 5, JObj [],
              JObj [(''workspace'',
                       JObj [(''id'', JNum 1), (''configPath'', JStr ''file:///a'')])]])]) =
   (\<lparr>workspaces = [], files = []\<rparr>, [])"
  by (simp add: restoreRecentlyOpened_def restoreEntry_def isSerializedRecentWorkspace_def
        isSerializedRecentFolder_def isSerializedRecentFile_def)

text \<open>
  Claim C6 (amended). An entry of the current schema is discriminated by the three
  guards of the source in a fixed order: \<^verbatim>\<open>isSerializedRecentWorkspace\<close> (a truthy object
  under \<^verbatim>\<open>workspace\<close> with a string \<^verbatim>\<open>id\<close> and a string \<^verbatim>\<open>configPath\<close>), else
  \<^verbatim>\<open>isSerializedRecentFolder\<close> (a string under \<^verbatim>\<open>folderUri\<close>), else \<^verbatim>\<open>isSerializedRecentFile\<close>
  (a string under \<^verbatim>\<open>fileUri\<close>). An entry that passes an earlier guard is restored as
  that kind, or dropped with a warning when its location does not parse, whatever
  later keys it carries; an entry that passes no guard restores nothing.
\<close>

theorem restoreEntry_priority_order:
  "(isSerializedRecentWorkspace e \<longrightarrow>
      restoreEntry d e i res =
        (case URI_parse d (asString (jsprop (jsprop e ''workspace'') ''configPath'')) of
           None \<Rightarrow> Inl (UriError (asString (jsprop (jsprop e ''workspace'') ''configPath'')))
         | Some u \<Rightarrow>
             Inr (res\<lparr>workspaces := workspaces res @
                    [IRecentWorkspace
                       (WorkspaceIdentifier (asString (jsprop (jsprop e ''workspace'') ''id'')) u)
                       (jsprop e ''label'') (jsprop e ''remoteAuthority'')]\<rparr>)))
   \<and> (\<not> isSerializedRecentWorkspace e \<and> isSerializedRecentFolder e \<longrightarrow>
      restoreEntry d e i res =
        (case URI_parse d (asString (jsprop e ''folderUri'')) of
           None \<Rightarrow> Inl (UriError (asString (jsprop e ''folderUri'')))
         | Some u \<Rightarrow>
             Inr (res\<lparr>workspaces := workspaces res @
                    [IRecentFolder u (jsprop e ''label'') (jsprop e ''remoteAuthority'')]\<rparr>)))
   \<and> (\<not> isSerializedRecentWorkspace e \<and> \<not> isSerializedRecentFolder e \<and>
      isSerializedRecentFile e \<longrightarrow>
      restoreEntry d e i res =
        (case URI_parse d (asString (jsprop e ''fileUri'')) of
           None \<Rightarrow> Inl (UriError (asString (jsprop e ''fileUri'')))
         | Some u \<Rightarrow>
             Inr (res\<lparr>files := files res @
                    [IRecentFile u (jsprop e ''label'') (jsprop e ''remoteAuthority'')]\<rparr>)))
   \<and> (\<not> isSerializedRecentWorkspace e \<and> \<not> isSerializedRecentFolder e \<and>
      \<not> isSerializedRecentFile e \<and> e \<noteq> JNull \<and> e \<noteq> JUndefined \<longrightarrow>
      restoreEntry d e i res = Inr res)"
proof -
  have obj: "member e k = Inr (jsprop e k)" if "typeof (jsprop e k') \<noteq> TUndefined" for k k'
    using that by (cases e) simp_all
  have w: "isSerializedRecentWorkspace e \<Longrightarrow> typeof (jsprop e ''workspace'') \<noteq> TUndefined"
    by (simp add: isSerializedRecentWorkspace_def)
  have f: "isSerializedRecentFolder e \<Longrightarrow> typeof (jsprop e ''folderUri'') \<noteq> TUndefined"
    by (simp add: isSerializedRecentFolder_def)
  have g: "isSerializedRecentFile e \<Longrightarrow> typeof (jsprop e ''fileUri'') \<noteq> TUndefined"
    by (simp add: isSerializedRecentFile_def)
  have n: "e \<noteq> JNull \<Longrightarrow> e \<noteq> JUndefined \<Longrightarrow> member e k = Inr (jsprop e k)" for k
    by (cases e) simp_all
  show ?thesis
    using obj[OF w] obj[OF f] obj[OF g] n
    by (simp add: restoreEntry_def parseOrThrow_def split: option.splits)
qed

theorem restoreEntry_priority_order_witness:
  "isSerializedRecentWorkspace
     (JObj [(''workspace'',
               JObj [(''id'', JStr ''abc''), (''configPath'', JStr ''file:///x/y.code-workspace'')]),
            (''folderUri'', JStr ''file:///f''), (''fileUri'', JStr ''file:///g'')]) \<and>
   restoreRecentlyOpened sampleDeps
     (JObj [(''entries'', JArr
        [JObj [(''workspace'',
                  JObj [(''id'', JStr ''abc''),
                        (''configPath'', JStr ''file:///x/y.code-workspace'')]),
               (''folderUri'', JStr ''file:///f''), (''fileUri'', JStr ''file:///g'')]])]) =
   (\<lparr>workspaces =
       [IRecentWorkspace (WorkspaceIdentifier ''abc'' (mkURI ''file'' [] ''/x/y.code-workspace''))
          JUndefined JUndefined],
     files = []\<rparr>, [])"
proof -
  let ?e = "JObj [(''workspace'',
               JObj [(''id'', JStr ''abc''), (''configPath'', JStr ''file:///x/y.code-workspace'')]),
            (''folderUri'', JStr ''file:///f''), (''fileUri'', JStr ''file:///g'')]"
  have h: "isSerializedRecentWorkspace ?e"
    by (simp add: isSerializedRecentWorkspace_def)
  have p: "URI_parse sampleDeps ''file:///x/y.code-workspace'' =
             Some (mkURI ''file'' [] ''/x/y.code-workspace'')"
    by (simp add: sampleDeps_def sample_parse_def mkURI_def)
  have "restoreEntry sampleDeps ?e 0 \<lparr>workspaces = [], files = []\<rparr> =
          Inr \<lparr>workspaces =
                 [IRecentWorkspace
                    (WorkspaceIdentifier ''abc'' (mkURI ''file'' [] ''/x/y.code-workspace''))
                    JUndefined JUndefined],
               files = []\<rparr>"
    using restoreEntry_priority_order[of ?e sampleDeps 0 "\<lparr>workspaces = [], files = []\<rparr>"] h p
    by simp
  then show ?thesis
    using h by (simp add: restoreRecentlyOpened_def)
qed

text \<open>
  The claim as written discriminates by the presence of the key. An entry that has
  the key \<^verbatim>\<open>workspace\<close> with a value that is not of the expected shape, and a string
  \<^verbatim>\<open>folderUri\<close>, is restored as a folder.
\<close>

theorem restoreEntry_priority_order_counterexample:
  "map_of [(''workspace'', JNum 5), (''folderUri'', JStr ''file:///f'')] ''workspace'' = Some (JNum 5) \<and>
   restoreRecentlyOpened sampleDeps
     (JObj [(''entries'',
        JArr [JObj [(''workspace'', JNum 5), (''folderUri'', JStr ''file:///f'')]])]) =
   (\<lparr>workspaces = [IRecentFolder (mkURI ''file'' [] ''/f'') JUndefined JUndefined],
     files = []\<rparr>, [])"
  by (simp add: restoreRecentlyOpened_def restoreEntry_def isSerializedRecentWorkspace_def
        isSerializedRecentFolder_def parseOrThrow_def sampleDeps_def sample_parse_def mkURI_def)

section \<open>Storing the recently opened list\<close>













section \<open>Parsing and rewriting a workspace file\<close>

lemma isArray_prop_truthy: "isArray (jsprop v k) \<Longrightarrow> truthy v"
  by (cases v) simp_all

lemma jsprop_assign_same: "isArray (jsprop v k') \<Longrightarrow> jsprop (assign v k x) k = x"
  by (cases v) (simp_all add: update_conv')

lemma jsprop_assign_other: "k \<noteq> k' \<Longrightarrow> jsprop (assign v k x) k' = jsprop v k'"
  by (cases v) (simp_all add: update_conv')

lemma doParseStoredWorkspace_ok:
  assumes "isArray (jsprop (json_parse jd contents) ''folders'')"
  shows "doParseStoredWorkspace jd p contents =
           Inr (assign (json_parse jd contents) ''folders''
                  (JArr (filter isStoredWorkspaceFolder
                           (elems (jsprop (json_parse jd contents) ''folders'')))))"
  using assms isArray_prop_truthy[OF assms] by (simp add: doParseStoredWorkspace_def Let_def)

lemma doParseStoredWorkspace_fails:
  assumes "\<not> isArray (jsprop (json_parse jd contents) ''folders'')"
  shows "doParseStoredWorkspace jd p contents = Inl (InvalidWorkspaceFile p)"
  using assms by (simp add: doParseStoredWorkspace_def Let_def)

lemma pushEach_success:
  "\<forall>x \<in> set xs. \<exists>y. f x = Inr y \<Longrightarrow>
   \<exists>ys. pushEach f xs acc = Inr (acc @ ys) \<and> list_all2 (\<lambda>x y. f x = Inr y) xs ys"
proof (induction xs arbitrary: acc)
  case Nil
  then show ?case by simp
next
  case (Cons x xs)
  from Cons.prems obtain y where y: "f x = Inr y" by auto
  from Cons.prems have "\<forall>x \<in> set xs. \<exists>y. f x = Inr y" by simp
  from Cons.IH[OF this, of "acc @ [y]"] obtain ys
    where ys: "pushEach f xs (acc @ [y]) = Inr ((acc @ [y]) @ ys)"
      and rel: "list_all2 (\<lambda>x y. f x = Inr y) xs ys" by blast
  have "pushEach f (x # xs) acc = Inr (acc @ (y # ys))" using y ys by simp
  moreover have "list_all2 (\<lambda>x y. f x = Inr y) (x # xs) (y # ys)" using y rel by simp
  ultimately show ?case by blast
qed

lemma pushEach_Inr:
  "pushEach f xs acc = Inr zs \<Longrightarrow>
   \<exists>ys. zs = acc @ ys \<and> list_all2 (\<lambda>x y. f x = Inr y) xs ys"
proof (induction xs arbitrary: acc)
  case Nil
  then show ?case by simp
next
  case (Cons x xs)
  then obtain y where y: "f x = Inr y" and rest: "pushEach f xs (acc @ [y]) = Inr zs"
    by (auto split: sum.splits)
  from Cons.IH[OF rest] obtain ys where "zs = (acc @ [y]) @ ys"
    and "list_all2 (\<lambda>x y. f x = Inr y) xs ys" by blast
  then have "zs = acc @ (y # ys)" and "list_all2 (\<lambda>x y. f x = Inr y) (x # xs) (y # ys)"
    using y by simp_all
  then show ?case by blast
qed

lemma rewriteFolder_succeeds:
  assumes "isRawFileWorkspaceFolder f \<or> URI_parse d (asString (jsprop f ''uri'')) \<noteq> None"
  shows "\<exists>y. rewriteFolder pf d extUri src tgt untitled slash f = Inr y"
  using assms by (auto simp: rewriteFolder_def Let_def split: option.splits)

text \<open>
  Claim C7. Parsing fails, with the error that names the file, exactly when the value
  the fault-tolerant parser returns has no array under \<^verbatim>\<open>folders\<close> (which includes every
  value that is not an object), and succeeds otherwise. When parsing fails,
  \<^verbatim>\<open>rewriteWorkspaceFileForNewLocation\<close> fails with the same error whatever the
  edit functions are, so no edit takes part in the outcome; and whenever it returns a
  text, parsing had succeeded.
\<close>

theorem doParseStoredWorkspace_fails_iff:
  "(doParseStoredWorkspace jd p contents = Inl (InvalidWorkspaceFile p)) =
     (\<not> isArray (jsprop (json_parse jd contents) ''folders''))
   \<and> (\<forall>e. doParseStoredWorkspace jd p contents = Inl e \<longrightarrow> e = InvalidWorkspaceFile p)
   \<and> (isArray (jsprop (json_parse jd contents) ''folders'') \<longrightarrow>
        (\<exists>sw. doParseStoredWorkspace jd p contents = Inr sw))
   \<and> (\<not> isArray (jsprop (json_parse jd contents) ''folders'') \<longrightarrow>
        rewriteWorkspaceFileForNewLocation pf d
          (jd\<lparr>setProperty := sp, removeProperty := rp, applyEdits := ae\<rparr>)
          contents p untitled target extUri = Inl (InvalidWorkspaceFile p))
   \<and> (\<forall>out. rewriteWorkspaceFileForNewLocation pf d jd contents p untitled target extUri = Inr out
          \<longrightarrow> isArray (jsprop (json_parse jd contents) ''folders''))"
proof -
  have a: "(doParseStoredWorkspace jd p contents = Inl (InvalidWorkspaceFile p)) =
             (\<not> isArray (jsprop (json_parse jd contents) ''folders''))"
    using doParseStoredWorkspace_ok[of jd contents p] doParseStoredWorkspace_fails[of jd contents p]
    by auto
  have b: "\<forall>e. doParseStoredWorkspace jd p contents = Inl e \<longrightarrow> e = InvalidWorkspaceFile p"
    by (simp add: doParseStoredWorkspace_def Let_def)
  have c: "isArray (jsprop (json_parse jd contents) ''folders'') \<longrightarrow>
        (\<exists>sw. doParseStoredWorkspace jd p contents = Inr sw)"
    using doParseStoredWorkspace_ok[of jd contents p] by simp
  have e1: "\<not> isArray (jsprop (json_parse jd contents) ''folders'') \<longrightarrow>
        rewriteWorkspaceFileForNewLocation pf d
          (jd\<lparr>setProperty := sp, removeProperty := rp, applyEdits := ae\<rparr>)
          contents p untitled target extUri = Inl (InvalidWorkspaceFile p)"
    by (simp add: rewriteWorkspaceFileForNewLocation_def doParseStoredWorkspace_def Let_def)
  have e2: "\<forall>out. rewriteWorkspaceFileForNewLocation pf d jd contents p untitled target extUri = Inr out
          \<longrightarrow> isArray (jsprop (json_parse jd contents) ''folders'')"
  proof (intro allI impI)
    fix out
    assume r: "rewriteWorkspaceFileForNewLocation pf d jd contents p untitled target extUri = Inr out"
    show "isArray (jsprop (json_parse jd contents) ''folders'')"
    proof (rule ccontr)
      assume "\<not> isArray (jsprop (json_parse jd contents) ''folders'')"
      then have "doParseStoredWorkspace jd p contents = Inl (InvalidWorkspaceFile p)"
        by (rule doParseStoredWorkspace_fails)
      then have "rewriteWorkspaceFileForNewLocation pf d jd contents p untitled target extUri =
                   Inl (InvalidWorkspaceFile p)"
        by (simp add: rewriteWorkspaceFileForNewLocation_def)
      with r show False by simp
    qed
  qed
  from a b c e1 e2 show ?thesis by blast
qed

theorem doParseStoredWorkspace_fails_iff_witness:
  "\<not> isArray (jsprop (json_parse sampleJson sampleTextNoFolders) ''folders'') \<and>
   doParseStoredWorkspace sampleJson (mkURI ''file'' [] ''/ws/w.code-workspace'')
     sampleTextNoFolders = Inl (InvalidWorkspaceFile (mkURI ''file'' [] ''/ws/w.code-workspace'')) \<and>
   rewriteWorkspaceFileForNewLocation posix sampleDeps sampleJson sampleTextNoFolders
     (mkURI ''file'' [] ''/ws/w.code-workspace'') False (mkURI ''file'' [] ''/new/w.code-workspace'')
     sampleExtUri = Inl (InvalidWorkspaceFile (mkURI ''file'' [] ''/ws/w.code-workspace''))"
proof -
  have h: "\<not> isArray (jsprop (json_parse sampleJson sampleTextNoFolders) ''folders'')"
    by (simp add: sampleJson_def sample_json_parse_def sampleTextNoFolders_def sampleText_def
          sampleTextBadUri_def)
  have same: "sampleJson\<lparr>setProperty := setProperty sampleJson,
                removeProperty := removeProperty sampleJson,
                applyEdits := applyEdits sampleJson\<rparr> = sampleJson"
    by simp
  from doParseStoredWorkspace_fails_iff
         [where jd = sampleJson and p = "mkURI ''file'' [] ''/ws/w.code-workspace''"
            and contents = sampleTextNoFolders and pf = posix and d = sampleDeps
            and sp = "setProperty sampleJson" and rp = "removeProperty sampleJson"
            and ae = "applyEdits sampleJson" and untitled = False
            and target = "mkURI ''file'' [] ''/new/w.code-workspace''"
            and extUri = sampleExtUri]
    h
  show ?thesis by (simp only: same) blast
qed

lemma rewriteWorkspaceFile_unfold:
  assumes "jsprop (json_parse jd rawText) ''folders'' = JArr fs"
  shows "rewriteWorkspaceFileForNewLocation pf d jd rawText cfg untitled target extUri =
           (case pushEach
                   (rewriteFolder pf d extUri (dirname extUri cfg) (dirname extUri target) untitled
                      (useSlashForPath pf (filter isStoredWorkspaceFolder fs)))
                   (filter isStoredWorkspaceFolder fs) [] of
              Inl e \<Rightarrow> Inl e
            | Inr rw \<Rightarrow>
                Inr (if resources_isEqualAuthority d
                          (jsprop (json_parse jd rawText) ''remoteAuthority'')
                          (getRemoteAuthority d target)
                     then applyEdits jd
                            (applyEdits jd rawText
                               (setProperty jd rawText [''folders''] (JArr rw) (formattingOptions pf)))
                            (removeProperty jd
                               (applyEdits jd rawText
                                  (setProperty jd rawText [''folders''] (JArr rw)
                                     (formattingOptions pf)))
                               [''remoteAuthority''] (formattingOptions pf))
                     else applyEdits jd rawText
                            (setProperty jd rawText [''folders''] (JArr rw) (formattingOptions pf))))"
proof -
  have arr: "isArray (jsprop (json_parse jd rawText) ''folders'')" using assms by simp
  have p: "doParseStoredWorkspace jd cfg rawText =
             Inr (assign (json_parse jd rawText) ''folders''
                    (JArr (filter isStoredWorkspaceFolder fs)))"
    using doParseStoredWorkspace_ok[OF arr, of cfg] assms by simp
  have f: "jsprop (assign (json_parse jd rawText) ''folders''
                     (JArr (filter isStoredWorkspaceFolder fs))) ''folders'' =
           JArr (filter isStoredWorkspaceFolder fs)"
    using arr by (rule jsprop_assign_same)
  have r: "jsprop (assign (json_parse jd rawText) ''folders''
                     (JArr (filter isStoredWorkspaceFolder fs))) ''remoteAuthority'' =
           jsprop (json_parse jd rawText) ''remoteAuthority''"
    by (rule jsprop_assign_other) simp
  show ?thesis
    by (simp add: rewriteWorkspaceFileForNewLocation_def p f r Let_def split: sum.splits)
qed

text \<open>
  Claim C10 (amended). When the parse of a workspace file has an array under
  \<^verbatim>\<open>folders\<close>, the parse step keeps exactly the elements that are stored folders (the
  others are filtered out; nothing is logged, the functions have no logger). If the
  \<^verbatim>\<open>uri\<close> of every uri-form folder that is kept parses, the rewrite succeeds: the value
  it sets for \<^verbatim>\<open>folders\<close> has one rewritten folder per kept element, in order, and none
  for a filtered element, and the output is the same as for a file whose parse never
  held the filtered elements.
\<close>

theorem rewrite_omits_invalid_folders:
  assumes "jsprop (json_parse jd rawText) ''folders'' = JArr fs"
    and "\<forall>f \<in> set fs. isRawUriWorkspaceFolder f \<and> \<not> isRawFileWorkspaceFolder f \<longrightarrow>
           URI_parse d (asString (jsprop f ''uri'')) \<noteq> None"
  shows "(\<exists>sw. doParseStoredWorkspace jd cfg rawText = Inr sw \<and>
               jsprop sw ''folders'' = JArr (filter isStoredWorkspaceFolder fs))
       \<and> (\<exists>rw. list_all2
                  (\<lambda>f y. rewriteFolder pf d extUri (dirname extUri cfg) (dirname extUri target)
                            untitled (useSlashForPath pf (filter isStoredWorkspaceFolder fs)) f =
                          Inr y)
                  (filter isStoredWorkspaceFolder fs) rw \<and>
                rewriteWorkspaceFileForNewLocation pf d jd rawText cfg untitled target extUri =
                Inr (if resources_isEqualAuthority d
                          (jsprop (json_parse jd rawText) ''remoteAuthority'')
                          (getRemoteAuthority d target)
                     then applyEdits jd
                            (applyEdits jd rawText
                               (setProperty jd rawText [''folders''] (JArr rw) (formattingOptions pf)))
                            (removeProperty jd
                               (applyEdits jd rawText
                                  (setProperty jd rawText [''folders''] (JArr rw)
                                     (formattingOptions pf)))
                               [''remoteAuthority''] (formattingOptions pf))
                     else applyEdits jd rawText
                            (setProperty jd rawText [''folders''] (JArr rw) (formattingOptions pf))))
       \<and> rewriteWorkspaceFileForNewLocation pf d jd rawText cfg untitled target extUri =
         rewriteWorkspaceFileForNewLocation pf d
           (jd\<lparr>json_parse := \<lambda>t. assign (json_parse jd t) ''folders''
                                      (JArr (filter isStoredWorkspaceFolder fs))\<rparr>)
           rawText cfg untitled target extUri"
proof -
  let ?valid = "filter isStoredWorkspaceFolder fs"
  let ?f = "rewriteFolder pf d extUri (dirname extUri cfg) (dirname extUri target) untitled
              (useSlashForPath pf ?valid)"
  let ?jd' = "jd\<lparr>json_parse := \<lambda>t. assign (json_parse jd t) ''folders'' (JArr ?valid)\<rparr>"
  have arr: "isArray (jsprop (json_parse jd rawText) ''folders'')" using assms(1) by simp
  have p: "doParseStoredWorkspace jd cfg rawText =
             Inr (assign (json_parse jd rawText) ''folders'' (JArr ?valid))"
    using doParseStoredWorkspace_ok[OF arr, of cfg] assms(1) by simp
  have c1: "\<exists>sw. doParseStoredWorkspace jd cfg rawText = Inr sw \<and> jsprop sw ''folders'' = JArr ?valid"
    using p jsprop_assign_same[OF arr] by blast
  have "\<forall>x \<in> set ?valid. \<exists>y. ?f x = Inr y"
  proof
    fix x assume x: "x \<in> set ?valid"
    then have "isRawFileWorkspaceFolder x \<or> URI_parse d (asString (jsprop x ''uri'')) \<noteq> None"
      using assms(2) by (auto simp: isStoredWorkspaceFolder_def)
    then show "\<exists>y. ?f x = Inr y" by (rule rewriteFolder_succeeds)
  qed
  from pushEach_success[OF this, of "[]"] obtain rw
    where rw: "pushEach ?f ?valid [] = Inr rw" and rel: "list_all2 (\<lambda>x y. ?f x = Inr y) ?valid rw"
    by auto
  have c2: "rewriteWorkspaceFileForNewLocation pf d jd rawText cfg untitled target extUri =
                Inr (if resources_isEqualAuthority d
                          (jsprop (json_parse jd rawText) ''remoteAuthority'')
                          (getRemoteAuthority d target)
                     then applyEdits jd
                            (applyEdits jd rawText
                               (setProperty jd rawText [''folders''] (JArr rw) (formattingOptions pf)))
                            (removeProperty jd
                               (applyEdits jd rawText
                                  (setProperty jd rawText [''folders''] (JArr rw)
                                     (formattingOptions pf)))
                               [''remoteAuthority''] (formattingOptions pf))
                     else applyEdits jd rawText
                            (setProperty jd rawText [''folders''] (JArr rw) (formattingOptions pf)))"
    using rewriteWorkspaceFile_unfold[OF assms(1), of pf d cfg untitled target extUri] rw
    by simp
  have f': "jsprop (json_parse ?jd' rawText) ''folders'' = JArr ?valid"
    using jsprop_assign_same[OF arr] by simp
  have r': "jsprop (json_parse ?jd' rawText) ''remoteAuthority'' =
            jsprop (json_parse jd rawText) ''remoteAuthority''"
    by (simp add: jsprop_assign_other)
  have c3: "rewriteWorkspaceFileForNewLocation pf d jd rawText cfg untitled target extUri =
            rewriteWorkspaceFileForNewLocation pf d ?jd' rawText cfg untitled target extUri"
    using rewriteWorkspaceFile_unfold[OF assms(1), of pf d cfg untitled target extUri]
      rewriteWorkspaceFile_unfold[OF f', of pf d cfg untitled target extUri] r'
    by (simp split: sum.splits)
  from c1 rel c2 c3 show ?thesis by blast
qed

theorem rewrite_omits_invalid_folders_witness:
  "jsprop (json_parse sampleJson sampleText) ''folders'' =
     JArr [JNum 5, JObj [(''path'', JStr ''src'')], JObj [(''path'', JNum 7)]] \<and>
   filter isStoredWorkspaceFolder
     [JNum 5, JObj [(''path'', JStr ''src'')], JObj [(''path'', JNum 7)]] =
     [JObj [(''path'', JStr ''src'')]] \<and>
   (\<exists>rw. list_all2
            (\<lambda>f y. rewriteFolder posix sampleDeps sampleExtUri
                      (dirname sampleExtUri (mkURI ''file'' [] ''/ws/w.code-workspace''))
                      (dirname sampleExtUri (mkURI ''file'' [] ''/new/w.code-workspace'')) False
                      (useSlashForPath posix [JObj [(''path'', JStr ''src'')]]) f = Inr y)
            [JObj [(''path'', JStr ''src'')]] rw \<and>
          rewriteWorkspaceFileForNewLocation posix sampleDeps sampleJson sampleText
            (mkURI ''file'' [] ''/ws/w.code-workspace'') False
            (mkURI ''file'' [] ''/new/w.code-workspace'') sampleExtUri =
          Inr (''folders: ...'' @ [CHR 0x0A] @ ''// settings follow''))"
proof -
  let ?fs = "[JNum 5, JObj [(''path'', JStr ''src'')], JObj [(''path'', JNum 7)]]"
  have h1: "jsprop (json_parse sampleJson sampleText) ''folders'' = JArr ?fs"
    by (simp add: sampleJson_def sample_json_parse_def)
  have h2: "\<forall>f \<in> set ?fs. isRawUriWorkspaceFolder f \<and> \<not> isRawFileWorkspaceFolder f \<longrightarrow>
              URI_parse sampleDeps (asString (jsprop f ''uri'')) \<noteq> None"
    by (simp add: isRawUriWorkspaceFolder_def)
  have v: "filter isStoredWorkspaceFolder ?fs = [JObj [(''path'', JStr ''src'')]]"
    by (simp add: isStoredWorkspaceFolder_def isRawFileWorkspaceFolder_def
          isRawUriWorkspaceFolder_def)
  have t: "applyEdits sampleJson sampleText
             (setProperty sampleJson sampleText [''folders''] (JArr rw) (formattingOptions posix)) =
           ''folders: ...'' @ [CHR 0x0A] @ ''// settings follow''" for rw
    by (simp add: sampleJson_def sampleText_def afterFirstLine_def)
  have e: "applyEdits sampleJson x (removeProperty sampleJson x p fo) = x" for x p fo
    by (simp add: sampleJson_def)
  have a: "\<exists>rw. list_all2
            (\<lambda>f y. rewriteFolder posix sampleDeps sampleExtUri
                      (dirname sampleExtUri (mkURI ''file'' [] ''/ws/w.code-workspace''))
                      (dirname sampleExtUri (mkURI ''file'' [] ''/new/w.code-workspace'')) False
                      (useSlashForPath posix (filter isStoredWorkspaceFolder ?fs)) f = Inr y)
            (filter isStoredWorkspaceFolder ?fs) rw \<and>
          rewriteWorkspaceFileForNewLocation posix sampleDeps sampleJson sampleText
            (mkURI ''file'' [] ''/ws/w.code-workspace'') False
            (mkURI ''file'' [] ''/new/w.code-workspace'') sampleExtUri =
          Inr (if resources_isEqualAuthority sampleDeps
                    (jsprop (json_parse sampleJson sampleText) ''remoteAuthority'')
                    (getRemoteAuthority sampleDeps (mkURI ''file'' [] ''/new/w.code-workspace''))
               then applyEdits sampleJson
                      (applyEdits sampleJson sampleText
                         (setProperty sampleJson sampleText [''folders''] (JArr rw)
                            (formattingOptions posix)))
                      (removeProperty sampleJson
                         (applyEdits sampleJson sampleText
                            (setProperty sampleJson sampleText [''folders''] (JArr rw)
                               (formattingOptions posix)))
                         [''remoteAuthority''] (formattingOptions posix))
               else applyEdits sampleJson sampleText
                      (setProperty sampleJson sampleText [''folders''] (JArr rw)
                         (formattingOptions posix)))"
    by (rule rewrite_omits_invalid_folders
               [OF h1 h2, where cfg = "mkURI ''file'' [] ''/ws/w.code-workspace''" and pf = posix
                  and extUri = sampleExtUri
                  and target = "mkURI ''file'' [] ''/new/w.code-workspace''"
                  and untitled = False, THEN conjunct2, THEN conjunct1])
  have b: "\<exists>rw. list_all2
            (\<lambda>f y. rewriteFolder posix sampleDeps sampleExtUri
                      (dirname sampleExtUri (mkURI ''file'' [] ''/ws/w.code-workspace''))
                      (dirname sampleExtUri (mkURI ''file'' [] ''/new/w.code-workspace'')) False
                      (useSlashForPath posix [JObj [(''path'', JStr ''src'')]]) f = Inr y)
            [JObj [(''path'', JStr ''src'')]] rw \<and>
          rewriteWorkspaceFileForNewLocation posix sampleDeps sampleJson sampleText
            (mkURI ''file'' [] ''/ws/w.code-workspace'') False
            (mkURI ''file'' [] ''/new/w.code-workspace'') sampleExtUri =
          Inr (''folders: ...'' @ [CHR 0x0A] @ ''// settings follow'')"
    using a by (simp only: v t e if_cancel)
  show ?thesis
    by (rule conjI[OF h1 conjI[OF v b]])
qed

text \<open>
  The claim as written promises success for every file with such an element. A file
  whose folders are \<^verbatim>\<open>5\<close> and a uri-form folder with the \<^verbatim>\<open>uri\<close> \<^verbatim>\<open>a b:c\<close>, which
  \<^verbatim>\<open>URI.parse\<close> rejects, is not rewritten: the exception of \<^verbatim>\<open>URI.parse\<close> leaves the function.
\<close>

theorem rewrite_omits_invalid_folders_counterexample:
  "jsprop (json_parse sampleJson sampleTextBadUri) ''folders'' =
     JArr [JNum 5, JObj [(''uri'', JStr ''a b:c'')]] \<and>
   \<not> isStoredWorkspaceFolder (JNum 5) \<and>
   rewriteWorkspaceFileForNewLocation posix sampleDeps sampleJson sampleTextBadUri
     (mkURI ''file'' [] ''/ws/w.code-workspace'') False
     (mkURI ''file'' [] ''/new/w.code-workspace'') sampleExtUri = Inl (UriError ''a b:c'')"
proof -
  have h1: "jsprop (json_parse sampleJson sampleTextBadUri) ''folders'' =
              JArr [JNum 5, JObj [(''uri'', JStr ''a b:c'')]]"
    by (simp add: sampleJson_def sample_json_parse_def sampleTextBadUri_def sampleText_def)
  have h2: "\<not> isStoredWorkspaceFolder (JNum 5)"
    by (simp add: isStoredWorkspaceFolder_def isRawFileWorkspaceFolder_def
          isRawUriWorkspaceFolder_def)
  have v: "filter isStoredWorkspaceFolder [JNum 5, JObj [(''uri'', JStr ''a b:c'')]] =
             [JObj [(''uri'', JStr ''a b:c'')]]"
    by (simp add: isStoredWorkspaceFolder_def isRawFileWorkspaceFolder_def
          isRawUriWorkspaceFolder_def)
  have f: "rewriteFolder posix sampleDeps sampleExtUri s t False sl
             (JObj [(''uri'', JStr ''a b:c'')]) = Inl (UriError ''a b:c'')" for s t sl
    by (simp add: rewriteFolder_def isRawFileWorkspaceFolder_def sampleDeps_def
          sample_parse_def)
  have "rewriteWorkspaceFileForNewLocation posix sampleDeps sampleJson sampleTextBadUri
     (mkURI ''file'' [] ''/ws/w.code-workspace'') False
     (mkURI ''file'' [] ''/new/w.code-workspace'') sampleExtUri = Inl (UriError ''a b:c'')"
    by (simp only: rewriteWorkspaceFile_unfold[OF h1] v) (simp add: f)
  with h1 h2 show ?thesis by blast
qed

text \<open>
  Claim C5 (amended). Whenever \<^verbatim>\<open>rewriteWorkspaceFileForNewLocation\<close> returns a text, that
  text is the raw text with the edits applied that \<^verbatim>\<open>jsonEdit.setProperty\<close> computes for
  the single property \<^verbatim>\<open>folders\<close>, set to the rewritten folders (one per stored folder of
  the file), followed, only when the stored remote authority equals that of the new
  location, by the edits that \<^verbatim>\<open>jsonEdit.removeProperty\<close> computes for \<^verbatim>\<open>remoteAuthority\<close>;
  nothing else touches the text, so whatever a minimal edit of \<^verbatim>\<open>folders\<close> preserves of a
  text is the same in the raw text and in the text after the first step. The
  formatting options of both edits are not supplied by the caller of the function,
  which has no such parameter: the function fixes them itself (tabs, tab size 4, and
  the end of line of the platform) and hands them to the edit utility.
\<close>

theorem rewrite_edits_only_folders:
  assumes "foldersEditMinimal jd outside"
    and "rewriteWorkspaceFileForNewLocation pf d jd rawText cfg untitled target extUri = Inr out"
  shows "\<exists>fs rw t1.
           jsprop (json_parse jd rawText) ''folders'' = JArr fs \<and>
           list_all2
             (\<lambda>f y. rewriteFolder pf d extUri (dirname extUri cfg) (dirname extUri target)
                       untitled (useSlashForPath pf (filter isStoredWorkspaceFolder fs)) f =
                     Inr y)
             (filter isStoredWorkspaceFolder fs) rw \<and>
           t1 = applyEdits jd rawText
                  (setProperty jd rawText [''folders''] (JArr rw)
                     \<lparr>insertSpaces = False, tabSize = 4,
                      eol = (if isLinux pf \<or> isMacintosh pf then [CHR 0x0A]
                             else [CHR 0x0D, CHR 0x0A])\<rparr>) \<and>
           outside t1 = outside rawText \<and>
           out = (if resources_isEqualAuthority d
                       (jsprop (json_parse jd rawText) ''remoteAuthority'')
                       (getRemoteAuthority d target)
                  then applyEdits jd t1
                         (removeProperty jd t1 [''remoteAuthority'']
                            \<lparr>insertSpaces = False, tabSize = 4,
                      eol = (if isLinux pf \<or> isMacintosh pf then [CHR 0x0A]
                             else [CHR 0x0D, CHR 0x0A])\<rparr>)
                  else t1)"
proof -
  let ?fo = "\<lparr>insertSpaces = False, tabSize = 4,
                      eol = (if isLinux pf \<or> isMacintosh pf then [CHR 0x0A]
                             else [CHR 0x0D, CHR 0x0A])\<rparr>"
  have fo: "formattingOptions pf = ?fo" by (simp add: formattingOptions_def)
  have arr: "isArray (jsprop (json_parse jd rawText) ''folders'')"
  proof (rule ccontr)
    assume "\<not> isArray (jsprop (json_parse jd rawText) ''folders'')"
    then have "doParseStoredWorkspace jd cfg rawText = Inl (InvalidWorkspaceFile cfg)"
      by (rule doParseStoredWorkspace_fails)
    then show False using assms(2) by (simp add: rewriteWorkspaceFileForNewLocation_def)
  qed
  then obtain fs where fs: "jsprop (json_parse jd rawText) ''folders'' = JArr fs"
    by (cases "jsprop (json_parse jd rawText) ''folders''") simp_all
  let ?valid = "filter isStoredWorkspaceFolder fs"
  let ?f = "rewriteFolder pf d extUri (dirname extUri cfg) (dirname extUri target) untitled
              (useSlashForPath pf ?valid)"
  from assms(2) rewriteWorkspaceFile_unfold[OF fs, of pf d cfg untitled target extUri]
  obtain rw where
    push: "pushEach ?f ?valid [] = Inr rw" and
    out: "out = (if resources_isEqualAuthority d
                       (jsprop (json_parse jd rawText) ''remoteAuthority'')
                       (getRemoteAuthority d target)
                 then applyEdits jd
                        (applyEdits jd rawText
                           (setProperty jd rawText [''folders''] (JArr rw) (formattingOptions pf)))
                        (removeProperty jd
                           (applyEdits jd rawText
                              (setProperty jd rawText [''folders''] (JArr rw)
                                 (formattingOptions pf)))
                           [''remoteAuthority''] (formattingOptions pf))
                 else applyEdits jd rawText
                        (setProperty jd rawText [''folders''] (JArr rw) (formattingOptions pf)))"
    by (auto split: sum.splits)
  from pushEach_Inr[OF push] have rel: "list_all2 (\<lambda>x y. ?f x = Inr y) ?valid rw" by simp
  have keep: "outside (applyEdits jd rawText
                         (setProperty jd rawText [''folders''] (JArr rw) ?fo)) =
              outside rawText"
    using assms(1) by (simp add: foldersEditMinimal_def)
  from fs rel keep out[unfolded fo] show ?thesis by blast
qed

theorem rewrite_edits_only_folders_witness:
  "foldersEditMinimal sampleJson afterFirstLine \<and>
   rewriteWorkspaceFileForNewLocation posix sampleDeps sampleJson sampleText
     (mkURI ''file'' [] ''/ws/w.code-workspace'') False
     (mkURI ''file'' [] ''/new/w.code-workspace'') sampleExtUri =
   Inr (''folders: ...'' @ [CHR 0x0A] @ ''// settings follow'') \<and>
   afterFirstLine (''folders: ...'' @ [CHR 0x0A] @ ''// settings follow'') =
   afterFirstLine sampleText"
proof -
  let ?fs = "[JNum 5, JObj [(''path'', JStr ''src'')], JObj [(''path'', JNum 7)]]"
  have h1: "foldersEditMinimal sampleJson afterFirstLine"
    by (simp add: foldersEditMinimal_def sampleJson_def afterFirstLine_def)
  have fs: "jsprop (json_parse sampleJson sampleText) ''folders'' = JArr ?fs"
    by (simp add: sampleJson_def sample_json_parse_def)
  have v: "filter isStoredWorkspaceFolder ?fs = [JObj [(''path'', JStr ''src'')]]"
    by (simp add: isStoredWorkspaceFolder_def isRawFileWorkspaceFolder_def
          isRawUriWorkspaceFolder_def)
  have f: "\<exists>y. rewriteFolder posix sampleDeps sampleExtUri s t False sl
             (JObj [(''path'', JStr ''src'')]) = Inr y" for s t sl
    by (rule rewriteFolder_succeeds) (simp add: isRawFileWorkspaceFolder_def)
  have t: "applyEdits sampleJson sampleText
             (setProperty sampleJson sampleText [''folders''] (JArr rw) fo) =
           ''folders: ...'' @ [CHR 0x0A] @ ''// settings follow''" for rw fo
    by (simp add: sampleJson_def sampleText_def afterFirstLine_def)
  have e: "applyEdits sampleJson x (removeProperty sampleJson x p fo) = x" for x p fo
    by (simp add: sampleJson_def)
  obtain y where y: "rewriteFolder posix sampleDeps sampleExtUri
             (dirname sampleExtUri (mkURI ''file'' [] ''/ws/w.code-workspace''))
             (dirname sampleExtUri (mkURI ''file'' [] ''/new/w.code-workspace'')) False
             (useSlashForPath posix [JObj [(''path'', JStr ''src'')]])
             (JObj [(''path'', JStr ''src'')]) = Inr y"
    using f by blast
  have h2: "rewriteWorkspaceFileForNewLocation posix sampleDeps sampleJson sampleText
     (mkURI ''file'' [] ''/ws/w.code-workspace'') False
     (mkURI ''file'' [] ''/new/w.code-workspace'') sampleExtUri =
   Inr (''folders: ...'' @ [CHR 0x0A] @ ''// settings follow'')"
    by (simp only: rewriteWorkspaceFile_unfold[OF fs] v) (simp add: y t e)
  from rewrite_edits_only_folders[OF h1 h2] obtain rw t1 fo
    where "afterFirstLine t1 = afterFirstLine sampleText"
      and "t1 = applyEdits sampleJson sampleText
                  (setProperty sampleJson sampleText [''folders''] (JArr rw) fo)"
    by blast
  then have "afterFirstLine (''folders: ...'' @ [CHR 0x0A] @ ''// settings follow'') =
             afterFirstLine sampleText"
    by (simp only: t)
  with h1 h2 show ?thesis by blast
qed

text \<open>
  The claim as written has the caller supply the formatting parameters. A call of the
  function passes the raw text, two locations, a flag and the URI operations, and none
  of these carries formatting options. With an edit utility that shows the options it
  is given, the same call yields tabs and tab size 4 on every platform, with the end
  of line \<^verbatim>\<open>\n\<close> on Linux and \<^verbatim>\<open>\r\n\<close> on Windows.
\<close>

theorem rewrite_formatting_fixed_counterexample:
  "rewriteWorkspaceFileForNewLocation posix sampleDeps probeJson sampleText
     (mkURI ''file'' [] ''/ws/w.code-workspace'') False
     (mkURI ''file'' [] ''/new/w.code-workspace'') sampleExtUri =
   Inr (''tabs 4 '' @ [CHR 0x0A]) \<and>
   rewriteWorkspaceFileForNewLocation windows sampleDeps probeJson sampleText
     (mkURI ''file'' [] ''/ws/w.code-workspace'') False
     (mkURI ''file'' [] ''/new/w.code-workspace'') sampleExtUri =
   Inr (''tabs 4 '' @ [CHR 0x0D, CHR 0x0A])"
proof -
  let ?fs = "[JNum 5, JObj [(''path'', JStr ''src'')], JObj [(''path'', JNum 7)]]"
  have fs: "jsprop (json_parse probeJson sampleText) ''folders'' = JArr ?fs"
    by (simp add: probeJson_def sample_json_parse_def)
  have v: "filter isStoredWorkspaceFolder ?fs = [JObj [(''path'', JStr ''src'')]]"
    by (simp add: isStoredWorkspaceFolder_def isRawFileWorkspaceFolder_def
          isRawUriWorkspaceFolder_def)
  have f: "\<exists>y. rewriteFolder pf sampleDeps sampleExtUri s t False sl
             (JObj [(''path'', JStr ''src'')]) = Inr y" for pf s t sl
    by (rule rewriteFolder_succeeds) (simp add: isRawFileWorkspaceFolder_def)
  have a: "applyEdits probeJson x (setProperty probeJson x' p rw (formattingOptions posix)) =
           ''tabs 4 '' @ [CHR 0x0A]" for x x' p rw
    by (simp add: probeJson_def formattingOptions_def posix_def)
  have a': "applyEdits probeJson x (removeProperty probeJson x' p (formattingOptions posix)) =
            ''tabs 4 '' @ [CHR 0x0A]" for x x' p
    by (simp add: probeJson_def formattingOptions_def posix_def)
  have b: "applyEdits probeJson x (setProperty probeJson x' p rw (formattingOptions windows)) =
           ''tabs 4 '' @ [CHR 0x0D, CHR 0x0A]" for x x' p rw
    by (simp add: probeJson_def formattingOptions_def windows_def)
  have b': "applyEdits probeJson x (removeProperty probeJson x' p (formattingOptions windows)) =
            ''tabs 4 '' @ [CHR 0x0D, CHR 0x0A]" for x x' p
    by (simp add: probeJson_def formattingOptions_def windows_def)
  obtain y where y: "rewriteFolder posix sampleDeps sampleExtUri
             (dirname sampleExtUri (mkURI ''file'' [] ''/ws/w.code-workspace''))
             (dirname sampleExtUri (mkURI ''file'' [] ''/new/w.code-workspace'')) False
             (useSlashForPath posix [JObj [(''path'', JStr ''src'')]])
             (JObj [(''path'', JStr ''src'')]) = Inr y"
    using f by blast
  obtain z where z: "rewriteFolder windows sampleDeps sampleExtUri
             (dirname sampleExtUri (mkURI ''file'' [] ''/ws/w.code-workspace''))
             (dirname sampleExtUri (mkURI ''file'' [] ''/new/w.code-workspace'')) False
             (useSlashForPath windows [JObj [(''path'', JStr ''src'')]])
             (JObj [(''path'', JStr ''src'')]) = Inr z"
    using f by blast
  have p: "rewriteWorkspaceFileForNewLocation posix sampleDeps probeJson sampleText
     (mkURI ''file'' [] ''/ws/w.code-workspace'') False
     (mkURI ''file'' [] ''/new/w.code-workspace'') sampleExtUri =
   Inr (''tabs 4 '' @ [CHR 0x0A])"
    by (simp only: rewriteWorkspaceFile_unfold[OF fs] v) (simp add: y a a')
  have w: "rewriteWorkspaceFileForNewLocation windows sampleDeps probeJson sampleText
     (mkURI ''file'' [] ''/ws/w.code-workspace'') False
     (mkURI ''file'' [] ''/new/w.code-workspace'') sampleExtUri =
   Inr (''tabs 4 '' @ [CHR 0x0D, CHR 0x0A])"
    by (simp only: rewriteWorkspaceFile_unfold[OF fs] v) (simp add: z b b')
  from p w show ?thesis by (rule conjI)
qed

end
